theory Spec2Isabelle
  imports Complex_Main "HOL-Library.Sublist" "HOL-Library.Multiset" "HOL-Library.Log_Nat"
begin

section \<open>Partial-label trainer: errors, effects and values\<close>

text \<open>
  The development embeds \<^verbatim>\<open>src/trainer_idpll.py\<close> (class \<^verbatim>\<open>Trainer\<close>) and
  \<^verbatim>\<open>src/datasets/fgvc100.py\<close> (\<^verbatim>\<open>load_fgvc100\<close>, \<^verbatim>\<open>FGVC100_Partialize\<close>).
  A Python exception is a value of \<open>error\<close>. Output and accelerator effects are
  recorded, in program order, in a list of \<open>event\<close>s that every operation threads.
\<close>

datatype error =
    AttributeError string
  | UnboundLocalError string
  | KeyError string
  | AssertionError
  | ZeroDivisionError
  | FileNotFoundError string
  | IndexError
  | TypeError
  | ValueError
  | RuntimeError
  | ExternalError string

datatype event =
    Print string
  | SetDevice nat
  | ToCuda string
  | ToDevice string
  | EmptyCache
  | AddScalar string

type_synonym 'a io = "event list \<Rightarrow> (error + 'a) \<times> event list"

definition io_return :: "'a \<Rightarrow> 'a io" where
  "io_return x = (\<lambda>tr. (Inr x, tr))"

definition io_raise :: "error \<Rightarrow> 'a io" where
  "io_raise e = (\<lambda>tr. (Inl e, tr))"

definition io_bind :: "'a io \<Rightarrow> ('a \<Rightarrow> 'b io) \<Rightarrow> 'b io" where
  "io_bind m f = (\<lambda>tr. case m tr of (Inl e, tr') \<Rightarrow> (Inl e, tr') | (Inr x, tr') \<Rightarrow> f x tr')"

definition emit :: "event \<Rightarrow> unit io" where
  "emit ev = (\<lambda>tr. (Inr (), tr @ [ev]))"

definition io_lift :: "error + 'a \<Rightarrow> 'a io" where
  "io_lift r = (\<lambda>tr. (r, tr))"

definition io_when :: "bool \<Rightarrow> unit io \<Rightarrow> unit io" where
  "io_when b m = (if b then m else io_return ())"

text \<open>Reading an attribute that was never assigned raises \<^verbatim>\<open>AttributeError\<close>.\<close>

definition getattr :: "string \<Rightarrow> 'a option \<Rightarrow> 'a io" where
  "getattr name v = (case v of None \<Rightarrow> io_raise (AttributeError name) | Some x \<Rightarrow> io_return x)"

text \<open>Reading a local variable that no branch bound raises \<^verbatim>\<open>UnboundLocalError\<close>.\<close>

definition getlocal :: "string \<Rightarrow> 'a option \<Rightarrow> 'a io" where
  "getlocal name v = (case v of None \<Rightarrow> io_raise (UnboundLocalError name) | Some x \<Rightarrow> io_return x)"

fun string_of_nat :: "nat \<Rightarrow> string" where
  "string_of_nat n =
     (if n < 10 then [char_of (48 + n)]
      else string_of_nat (n div 10) @ [char_of (48 + n mod 10)])"

subsection \<open>Floating-point values\<close>

text \<open>
  A float32 tensor entry is a finite value or one of the IEEE special values. A finite
  value is the rational number it denotes. An arithmetic operation takes the exact result
  and rounds it to the nearest binary32 value, ties to the even significand: 24
  significant bits, exponents from \<open>-126\<close> with gradual underflow below, and overflow to
  infinity from \<open>2 ^ 128\<close>. A zero has no sign here: the zero divisors that occur are
  sums of nonnegative entries.
\<close>

datatype fval = Fin rat | PInf | NInf | NaN

definition round_half_even :: "rat \<Rightarrow> int" where
  "round_half_even y =
     (let f = \<lfloor>y\<rfloor>; r = y - of_int f
      in if r < 1 / 2 then f
         else if 1 / 2 < r then f + 1
         else if even f then f else f + 1)"

text \<open>The exponent of a positive rational: the floor of its binary logarithm.\<close>

definition ilog2 :: "rat \<Rightarrow> int" where
  "ilog2 x =
     (case quotient_of x of (p, q) \<Rightarrow>
        let d = bitlen p - bitlen q
        in if power_int 2 d \<le> x then d else d - 1)"

definition round32 :: "rat \<Rightarrow> fval" where
  "round32 x =
     (if x = 0 then Fin 0
      else
        let e = max (ilog2 \<bar>x\<bar>) (- 126);
            q = power_int 2 (e - 23);
            v = of_int (round_half_even (\<bar>x\<bar> / q)) * q
        in if 2 ^ 128 \<le> v then (if 0 < x then PInf else NInf)
           else Fin (sgn x * v))"

fun fdiv :: "fval \<Rightarrow> fval \<Rightarrow> fval" where
  "fdiv (Fin a) (Fin b) =
     (if b \<noteq> 0 then round32 (a / b)
      else if a = 0 then NaN
      else if 0 < a then PInf
      else NInf)"
| "fdiv NaN _ = NaN"
| "fdiv _ NaN = NaN"
| "fdiv (Fin a) PInf = Fin 0"
| "fdiv (Fin a) NInf = Fin 0"
| "fdiv PInf (Fin b) = (if 0 \<le> b then PInf else NInf)"
| "fdiv NInf (Fin b) = (if 0 \<le> b then NInf else PInf)"
| "fdiv PInf PInf = NaN"
| "fdiv PInf NInf = NaN"
| "fdiv NInf PInf = NaN"
| "fdiv NInf NInf = NaN"

fun fadd :: "fval \<Rightarrow> fval \<Rightarrow> fval" where
  "fadd (Fin a) (Fin b) = round32 (a + b)"
| "fadd NaN _ = NaN"
| "fadd _ NaN = NaN"
| "fadd PInf NInf = NaN"
| "fadd NInf PInf = NaN"
| "fadd PInf _ = PInf"
| "fadd _ PInf = PInf"
| "fadd NInf _ = NInf"
| "fadd _ NInf = NInf"

text \<open>
  The sum of a row, as \<^verbatim>\<open>row.sum()\<close> computes it. The order in which torch adds the
  entries is not fixed; here they are added from the left, starting from zero.
\<close>

definition fsum :: "fval list \<Rightarrow> fval" where
  "fsum xs = foldl fadd (Fin 0) xs"

text \<open>An entry of the candidate matrix as a float32 value (\<^verbatim>\<open>.float()\<close>).\<close>

definition float_of_nat :: "nat \<Rightarrow> fval" where
  "float_of_nat n = round32 (of_nat n)"

text \<open>The number that a finite entry denotes; the special values denote none.\<close>

fun finite_value :: "fval \<Rightarrow> rat" where
  "finite_value (Fin r) = r"
| "finite_value _ = 0"

text \<open>The mean of some entries (\<^verbatim>\<open>.mean(dim)\<close>): their sum divided by their number.\<close>

definition fmean :: "fval list \<Rightarrow> fval" where
  "fmean xs = fdiv (fsum xs) (float_of_nat (length xs))"

subsection \<open>Confidence initialisation (\<^verbatim>\<open>build_criterion\<close>, lines 302--303)\<close>

text \<open>
  \<^verbatim>\<open>tempY = partialY.sum(dim=1).unsqueeze(1).repeat(1, partialY.shape[1])\<close> and
  \<^verbatim>\<open>confidence = partialY.float() / tempY\<close>. The matrix is a list of rows of the
  same length; an entry of \<open>tempY\<close> is the float32 sum of its row.
\<close>

definition row_sums_repeated :: "nat list list \<Rightarrow> fval list list" where
  "row_sums_repeated partialY =
     map (\<lambda>row. replicate (length row) (fsum (map float_of_nat row))) partialY"

definition uniform_targets :: "nat list list \<Rightarrow> fval list list" where
  "uniform_targets partialY =
     (let tempY = row_sums_repeated partialY
      in map2 (\<lambda>row trow. map2 (\<lambda>y s. fdiv (float_of_nat y) s) row trow) partialY tempY)"

subsection \<open>Data loaders\<close>

text \<open>
  A \<^verbatim>\<open>torch.utils.data.DataLoader\<close> is its dataset and the arguments the source passes.
  Iterating it draws the order of the indices (the identity order, or the permutation the
  random sampler drew for this epoch when \<^verbatim>\<open>shuffle=True\<close>), cuts it into batches of
  \<^verbatim>\<open>batch_size\<close> indices and, with \<^verbatim>\<open>drop_last=True\<close>, leaves out a last batch
  that is not full.
\<close>

datatype transform = FiveCrop | TenCrop | RandAug nat | CenterCrop

datatype dataset =
    TrainvalSplit
  | TestSplit transform
  | FGVC100_Partialize "nat list" "nat list list" "nat list"

record loader =
  ld_dataset :: dataset
  ld_len :: nat
  ld_batch_size :: nat
  ld_shuffle :: bool
  ld_drop_last :: bool

definition DataLoader :: "dataset \<Rightarrow> nat \<Rightarrow> int \<Rightarrow> bool \<Rightarrow> bool \<Rightarrow> error + loader" where
  "DataLoader ds n bs shuffle drop_last =
     (if bs \<le> 0 then Inl ValueError
      else Inr \<lparr>ld_dataset = ds, ld_len = n, ld_batch_size = nat bs,
                ld_shuffle = shuffle, ld_drop_last = drop_last\<rparr>)"

function chunks :: "nat \<Rightarrow> 'a list \<Rightarrow> 'a list list" where
  "chunks n xs = (if n = 0 \<or> xs = [] then [] else take n xs # chunks n (drop n xs))"
  by pat_completeness auto
termination
  by (relation "measure (\<lambda>(n, xs). length xs)") auto

definition iter_batches :: "loader \<Rightarrow> nat list \<Rightarrow> nat list list" where
  "iter_batches ld perm =
     (let order = (if ld_shuffle ld then perm else [0..<ld_len ld]);
          bs = chunks (ld_batch_size ld) order
      in if ld_drop_last ld then filter (\<lambda>b. length b = ld_batch_size ld) bs else bs)"

text \<open>The indices one epoch yields, in order.\<close>

definition epoch_indices :: "loader \<Rightarrow> nat list \<Rightarrow> nat list" where
  "epoch_indices ld perm = concat (iter_batches ld perm)"

subsection \<open>Configuration and external collaborators\<close>

text \<open>The fields of \<^verbatim>\<open>cfg\<close> that the embedded code reads.\<close>

record config =
  gpu :: "nat option"
  backbone :: string
  prec :: string
  tte :: bool
  tte_mode :: string
  randaug_times :: nat
  test_train :: bool
  test_only :: bool
  zero_shot :: bool
  dataset :: string
  batch_size :: int
  micro_batch_size :: int
  loss_type :: string
  init_head :: string
  prompt :: string
  num_epochs :: nat

type_synonym image = "rat list"

type_synonym tensor = "nat list \<times> rat list"

type_synonym state_dict = "(string \<times> tensor) list"

record module =
  training :: bool
  params :: state_dict

text \<open>
  What a forward pass returns: a tensor of per-class scores (one row per input image),
  or a pair of that tensor and a second one.
\<close>

datatype model_out = Logits "fval list list" | LogitsFeat "fval list list" "fval list list"

datatype net =
    ZeroShotCLIP
  | PeftModelFromCLIP_MLP
  | PeftModelFromCLIP
  | PeftModelFromViT
  | DataParallel net

text \<open>The tuple a dataset loader returns.\<close>

type_synonym loaded = "loader \<times> nat list list \<times> loader \<times> nat \<times> nat \<times> string list"

text \<open>
  Code and data outside the two source files are parameters: the dataset on disk, the
  candidate-label generator of \<^verbatim>\<open>utils.util\<close>, the other dataset loaders, the model
  classes of \<^verbatim>\<open>models\<close>, the algorithm registry of \<^verbatim>\<open>utils.algorithms\<close>, the
  evaluator, the checkpoint files and \<^verbatim>\<open>torch\<close>'s \<^verbatim>\<open>load_state_dict\<close>.
\<close>

record env =
  env_cuda_available :: bool
  env_device_count :: nat
  env_train_labels :: "nat list"
  env_classnames :: "string list"
  env_test_len :: nat
  env_generate :: "nat list \<Rightarrow> nat list list"
  env_other_loader :: "string \<Rightarrow> config \<Rightarrow> transform \<Rightarrow> loaded io"
  env_clip_known :: "string \<Rightarrow> bool"
  env_algorithm_known :: "string \<Rightarrow> bool"
  env_new_tuner :: "config \<Rightarrow> module"
  env_new_neck :: "config \<Rightarrow> module"
  env_new_head :: "config \<Rightarrow> nat \<Rightarrow> module"
  env_forward :: "net \<Rightarrow> image list \<Rightarrow> model_out"
  env_text_features :: "string \<Rightarrow> error + tensor"
  env_class_means :: "loader \<Rightarrow> error + tensor"
  env_linear_probe :: "loader \<Rightarrow> error + tensor"
  env_apply_weight :: "tensor \<Rightarrow> module \<Rightarrow> error + module"
  env_test_item :: "nat \<Rightarrow> nat \<Rightarrow> image"
  env_test_label :: "nat \<Rightarrow> nat"
  env_evaluate :: "(fval list list \<times> nat list) list \<Rightarrow> (string \<times> rat) list"
  env_checkpoint :: "string \<Rightarrow> (string \<times> state_dict) list option"
  env_load_state_dict :: "state_dict \<Rightarrow> module \<Rightarrow> error + module"

subsection \<open>\<^verbatim>\<open>load_fgvc100\<close>\<close>

text \<open>
  \<^verbatim>\<open>temp = torch.zeros(partialY.shape); temp[torch.arange(n), ori_labels] = 1\<close>:
  the two index vectors are broadcast against each other, and every index must be in
  range.
\<close>

definition index_pairs :: "nat \<Rightarrow> nat list \<Rightarrow> error + (nat \<times> nat) list" where
  "index_pairs n labels =
     (if length labels = n then Inr (zip [0..<n] labels)
      else if n = 1 then Inr (map (\<lambda>l. (0, l)) labels)
      else if length labels = 1 then Inr (map (\<lambda>i. (i, hd labels)) [0..<n])
      else Inl IndexError)"

definition set_entry :: "nat list list \<Rightarrow> nat \<times> nat \<Rightarrow> nat list list" where
  "set_entry T p = T[fst p := (T ! fst p)[snd p := 1]]"

definition one_hot_like :: "nat list list \<Rightarrow> nat list \<Rightarrow> error + nat list list" where
  "one_hot_like partialY ori_labels =
     (case index_pairs (length partialY) ori_labels of
        Inl e \<Rightarrow> Inl e
      | Inr ps \<Rightarrow>
          if \<exists>p \<in> set ps. length (partialY ! fst p) \<le> snd p then Inl IndexError
          else Inr (foldl set_entry (map (\<lambda>row. replicate (length row) 0) partialY) ps))"

text \<open>\<^verbatim>\<open>torch.sum(partialY_matrix * temp)\<close>.\<close>

definition masked_sum :: "nat list list \<Rightarrow> nat list list \<Rightarrow> nat" where
  "masked_sum A B = sum_list (map2 (\<lambda>a b. sum_list (map2 (*) a b)) A B)"

definition load_fgvc100 :: "env \<Rightarrow> config \<Rightarrow> transform \<Rightarrow> loaded io" where
  "load_fgvc100 env cfg transform_test =
     (let ori_labels = env_train_labels env;
          num_instances = length ori_labels;
          classnames = env_classnames env;
          num_classes = length classnames
      in
      io_bind (io_lift (DataLoader TrainvalSplit num_instances (int num_instances) False False))
        (\<lambda>original_full_loader.
      io_bind (emit (Print (string_of_nat num_classes))) (\<lambda>_.
      io_bind (io_lift (DataLoader (TestSplit transform_test) (env_test_len env)
                 (batch_size cfg) False False)) (\<lambda>test_loader.
      io_bind (emit (ToCuda ''wide_resnet50_2'')) (\<lambda>_.
      let partialY_matrix = env_generate env ori_labels in
      io_bind (io_lift (one_hot_like partialY_matrix ori_labels)) (\<lambda>temp.
      io_bind (io_when (masked_sum partialY_matrix temp = length partialY_matrix)
                 (emit (Print ''data loading done !''))) (\<lambda>_.
      let partial_training_dataset = FGVC100_Partialize ori_labels partialY_matrix ori_labels in
      io_bind (io_lift (DataLoader partial_training_dataset (length ori_labels)
                 (batch_size cfg) True True)) (\<lambda>partial_training_dataloader.
      io_return (partial_training_dataloader, partialY_matrix, test_loader,
                 num_instances, num_classes, classnames)))))))))"

section \<open>The trainer\<close>

text \<open>
  An attribute of the \<^verbatim>\<open>Trainer\<close> object is a field that holds \<open>None\<close> until the
  code assigns it. \<^verbatim>\<open>self.tuner\<close> and \<^verbatim>\<open>self.head\<close> may be assigned Python's
  \<^verbatim>\<open>None\<close>, hence the second option. The accumulated pairs of the evaluator stand for
  its state; \<^verbatim>\<open>self._writer\<close> is \<open>writer\<close>.
\<close>

record trainer =
  device :: "string option"
  cfg :: config
  train_loader :: "loader option"
  partialY :: "nat list list option"
  test_loader :: "loader option"
  num_instances :: "nat option"
  num_classes :: "nat option"
  classnames :: "string list option"
  accum_step :: "int option"
  model :: "net option"
  tuner :: "module option option"
  neck :: "module option"
  head :: "module option option"
  optim :: "(module \<times> module) option"
  sched :: "nat option"
  scaler :: "bool option"
  confidence :: "fval list list option"
  algorithm :: "string option"
  evaluator :: "(fval list list \<times> nat list) list option"
  writer :: "string option option"
  train_test_loader :: "loader option"
  train_init_loader :: "loader option"

text \<open>The object as \<^verbatim>\<open>__init__\<close> finds it: no attribute assigned.\<close>

definition new_trainer :: "config \<Rightarrow> trainer" where
  "new_trainer c =
     \<lparr>device = None, cfg = c, train_loader = None, partialY = None, test_loader = None,
      num_instances = None, num_classes = None, classnames = None, accum_step = None,
      model = None, tuner = None, neck = None, head = None, optim = None, sched = None,
      scaler = None, confidence = None, algorithm = None, evaluator = None, writer = None,
      train_test_loader = None, train_init_loader = None\<rparr>"

text \<open>A module attribute whose method or field \<open>what\<close> is used: Python's \<^verbatim>\<open>None\<close> has none.\<close>

definition get_module :: "string \<Rightarrow> string \<Rightarrow> module option option \<Rightarrow> module io" where
  "get_module name what v =
     (case v of
        None \<Rightarrow> io_raise (AttributeError name)
      | Some None \<Rightarrow> io_raise (AttributeError what)
      | Some (Some m) \<Rightarrow> io_return m)"

subsection \<open>\<^verbatim>\<open>load_clip_to_cpu\<close>, \<^verbatim>\<open>load_vit_to_cpu\<close>\<close>

definition precisions :: "string list" where
  "precisions = [''fp16'', ''fp32'', ''amp'']"

definition load_clip_to_cpu :: "env \<Rightarrow> string \<Rightarrow> string \<Rightarrow> string io" where
  "load_clip_to_cpu env backbone_name p =
     (let name = dropWhile (\<lambda>c. c \<in> set ''CLIP-'') backbone_name in
      if \<not> env_clip_known env name then io_raise (KeyError name)
      else if p \<notin> set precisions then io_raise AssertionError
      else io_return name)"

definition load_vit_to_cpu :: "string \<Rightarrow> string \<Rightarrow> string io" where
  "load_vit_to_cpu backbone_name p =
     (let model =
        (if backbone_name = ''IN21K-ViT-B/16'' then Some ''vit_base_patch16_224''
         else if backbone_name = ''IN21K-ViT-B/16@384px'' then Some ''vit_base_patch16_384''
         else if backbone_name = ''IN21K-ViT-L/16'' then Some ''vit_large_patch16_224''
         else None)
      in if p \<notin> set precisions then io_raise AssertionError
         else getlocal ''model'' model)"

subsection \<open>\<^verbatim>\<open>build_data_loader\<close>\<close>

definition test_transform :: "config \<Rightarrow> transform option" where
  "test_transform c =
     (if tte c then
        (if tte_mode c = ''fivecrop'' then Some FiveCrop
         else if tte_mode c = ''tencrop'' then Some TenCrop
         else if tte_mode c = ''randaug'' then Some (RandAug (randaug_times c))
         else None)
      else Some CenterCrop)"

definition assign_loaded :: "trainer \<Rightarrow> loaded \<Rightarrow> trainer io" where
  "assign_loaded t r =
     (case r of (trl, pY, tsl, ni, nc, cn) \<Rightarrow>
        io_bind (emit (Print (''num_classes: '' @ string_of_nat nc))) (\<lambda>_.
        io_return (t\<lparr>train_loader := Some trl, partialY := Some pY, test_loader := Some tsl,
                     num_instances := Some ni, num_classes := Some nc,
                     classnames := Some cn\<rparr>)))"

definition build_data_loader :: "env \<Rightarrow> trainer \<Rightarrow> trainer io" where
  "build_data_loader env t =
     (let c = cfg t in
      io_bind (emit (Print (if prefix ''CLIP'' (backbone c)
                            then ''mean: [0.48145466, 0.4578275, 0.40821073]''
                            else ''mean: [0.5, 0.5, 0.5]''))) (\<lambda>_.
      io_bind (emit (Print (if prefix ''CLIP'' (backbone c)
                            then ''std: [0.26862954, 0.26130258, 0.27577711]''
                            else ''std: [0.5, 0.5, 0.5]''))) (\<lambda>_.
      let transform_test = test_transform c in
      io_bind
        (if \<not> (test_train c \<or> test_only c) then
           (if dataset c = ''fgvc100'' then
              io_bind (getlocal ''transform_test'' transform_test) (\<lambda>tt.
              io_bind (load_fgvc100 env c tt) (assign_loaded t))
            else if dataset c = ''cub200'' \<or> dataset c = ''cars196'' \<or> dataset c = ''dogs120'' then
              io_bind (getlocal ''transform_test'' transform_test) (\<lambda>tt.
              io_bind (env_other_loader env (dataset c) c tt) (assign_loaded t))
            else io_return t)
         else io_return t) (\<lambda>t.
      if micro_batch_size c = 0 then io_raise ZeroDivisionError
      else if batch_size c mod micro_batch_size c \<noteq> 0 then io_raise AssertionError
      else io_return (t\<lparr>accum_step := Some (batch_size c div micro_batch_size c)\<rparr>)))))"

subsection \<open>\<^verbatim>\<open>build_optimizer\<close>, \<^verbatim>\<open>build_criterion\<close>\<close>

definition neck_losses :: "string list" where
  "neck_losses = [''DIRK'', ''ABLE'', ''PiCO'']"

definition build_optimizer :: "trainer \<Rightarrow> trainer io" where
  "build_optimizer t =
     (let c = cfg t in
      io_bind (emit (Print ''Turning off gradients in the model'')) (\<lambda>_.
      io_bind (getattr ''model'' (model t)) (\<lambda>_.
      io_bind (emit (Print ''Turning on gradients in the tuner'')) (\<lambda>_.
      io_bind (get_module ''tuner'' ''named_parameters'' (tuner t)) (\<lambda>tu.
      io_bind (emit (Print ''Turning on gradients in the head'')) (\<lambda>_.
      io_bind (get_module ''head'' ''named_parameters'' (head t)) (\<lambda>he.
      io_bind (if loss_type c \<in> set neck_losses then
                 io_bind (emit (Print ''Turning on gradients in the neck'')) (\<lambda>_.
                 io_bind (getattr ''neck'' (neck t)) (\<lambda>_. io_return ()))
               else io_return ()) (\<lambda>_.
      io_bind (emit (Print ''Total params'')) (\<lambda>_.
      io_bind (emit (Print ''Tuned params'')) (\<lambda>_.
      io_bind (emit (Print ''Head params'')) (\<lambda>_.
      io_return (t\<lparr>optim := Some (tu, he), sched := Some (num_epochs c),
                   scaler := Some (prec c = ''amp'')\<rparr>))))))))))))"

definition build_criterion :: "env \<Rightarrow> trainer \<Rightarrow> trainer io" where
  "build_criterion env t =
     (let c = cfg t in
      io_bind (emit (Print ''Calculating uniform targets...'')) (\<lambda>_.
      io_bind (getattr ''partialY'' (partialY t)) (\<lambda>pY.
      let confidence = uniform_targets pY in
      io_bind (emit (ToCuda ''confidence'')) (\<lambda>_.
      let t = t\<lparr>confidence := Some confidence\<rparr> in
      io_bind (getattr ''num_instances'' (num_instances t)) (\<lambda>N.
      io_bind (getattr ''num_classes'' (num_classes t)) (\<lambda>C.
      io_bind (emit (Print (''torch.Size(['' @ string_of_nat N @ '', '' @ string_of_nat C @ ''])''))) (\<lambda>_.
      if \<not> env_algorithm_known env (loss_type c) then io_raise (ExternalError ''get_algorithm_class'')
      else
      io_bind (getattr ''model'' (model t)) (\<lambda>_.
      io_bind (getattr ''device'' (device t)) (\<lambda>d.
      io_bind (emit (ToDevice d)) (\<lambda>_.
      io_return (t\<lparr>algorithm := Some (loss_type c)\<rparr>)))))))))))"

subsection \<open>Head initialisation\<close>

definition init_head_text_feat :: "env \<Rightarrow> trainer \<Rightarrow> trainer io" where
  "init_head_text_feat env t =
     (let c = cfg t in
      io_bind (emit (Print ''Initialize head with text features'')) (\<lambda>_.
      io_bind (if prompt c = ''ensemble'' \<or> prompt c = ''descriptor'' \<or> prompt c = ''classname''
                  \<or> prompt c = ''default''
               then io_bind (getattr ''model'' (model t)) (\<lambda>_.
                    io_bind (io_lift (env_text_features env (prompt c))) (\<lambda>f. io_return (Some f)))
               else io_return None) (\<lambda>tf.
      io_bind (getlocal ''text_features'' tf) (\<lambda>text_features.
      io_bind (get_module ''head'' ''apply_weight'' (head t)) (\<lambda>he.
      io_bind (io_lift (env_apply_weight env text_features he)) (\<lambda>he'.
      io_return (t\<lparr>head := Some (Some he')\<rparr>)))))))"

definition init_head_class_mean :: "env \<Rightarrow> trainer \<Rightarrow> trainer io" where
  "init_head_class_mean env t =
     io_bind (emit (Print ''Initialize head with class means'')) (\<lambda>_.
     io_bind (getattr ''train_init_loader'' (train_init_loader t)) (\<lambda>ld.
     io_bind (getattr ''model'' (model t)) (\<lambda>_.
     io_bind (io_lift (env_class_means env ld)) (\<lambda>class_means.
     io_bind (get_module ''head'' ''apply_weight'' (head t)) (\<lambda>he.
     io_bind (io_lift (env_apply_weight env class_means he)) (\<lambda>he'.
     io_return (t\<lparr>head := Some (Some he')\<rparr>)))))))"

definition init_head_linear_probe :: "env \<Rightarrow> trainer \<Rightarrow> trainer io" where
  "init_head_linear_probe env t =
     io_bind (emit (Print ''Initialize head with linear probing'')) (\<lambda>_.
     io_bind (getattr ''train_init_loader'' (train_init_loader t)) (\<lambda>ld.
     io_bind (getattr ''model'' (model t)) (\<lambda>_.
     io_bind (io_lift (env_linear_probe env ld)) (\<lambda>class_weights.
     io_bind (get_module ''head'' ''apply_weight'' (head t)) (\<lambda>he.
     io_bind (io_lift (env_apply_weight env class_weights he)) (\<lambda>he'.
     io_return (t\<lparr>head := Some (Some he')\<rparr>)))))))"

subsection \<open>\<^verbatim>\<open>build_model\<close>\<close>

text \<open>
  \<open>construct_model\<close> is the chain of lines 198--237 that builds the network for the
  configured backbone; \<open>init_head_by_name\<close> is the chain of lines 243--250 that selects
  the head initialisation by the string \<^verbatim>\<open>cfg.init_head\<close>.
\<close>

definition class_mean_names :: "string list" where
  "class_mean_names = [''class_mean'', ''1_shot'', ''10_shot'', ''100_shot'']"

definition construct_model :: "env \<Rightarrow> trainer \<Rightarrow> nat \<Rightarrow> trainer io" where
  "construct_model env t n_cls =
     (let c = cfg t in
      if zero_shot c then
        (if \<not> prefix ''CLIP'' (backbone c) then io_raise AssertionError
         else
         io_bind (emit (Print (''Loading CLIP (backbone: '' @ backbone c @ '')''))) (\<lambda>_.
         io_bind (load_clip_to_cpu env (backbone c) (prec c)) (\<lambda>_.
         io_bind (getattr ''device'' (device t)) (\<lambda>d.
         io_bind (emit (ToDevice d)) (\<lambda>_.
         io_return (t\<lparr>model := Some ZeroShotCLIP, tuner := Some None, head := Some None\<rparr>))))))
      else if prefix ''CLIP'' (backbone c) then
        io_bind (emit (Print (''Loading CLIP (backbone: '' @ backbone c @ '')''))) (\<lambda>_.
        io_bind (load_clip_to_cpu env (backbone c) (prec c)) (\<lambda>_.
        io_bind (getattr ''device'' (device t)) (\<lambda>d.
        io_bind (emit (ToDevice d)) (\<lambda>_.
        if loss_type c \<in> set neck_losses then
          io_return (t\<lparr>model := Some PeftModelFromCLIP_MLP,
                       tuner := Some (Some (env_new_tuner env c)),
                       neck := Some (env_new_neck env c),
                       head := Some (Some (env_new_head env c n_cls))\<rparr>)
        else
          io_return (t\<lparr>model := Some PeftModelFromCLIP,
                       tuner := Some (Some (env_new_tuner env c)),
                       head := Some (Some (env_new_head env c n_cls))\<rparr>)))))
      else if prefix ''IN21K-ViT'' (backbone c) then
        io_bind (emit (Print (''Loading ViT (backbone: '' @ backbone c @ '')''))) (\<lambda>_.
        io_bind (load_vit_to_cpu (backbone c) (prec c)) (\<lambda>_.
        io_bind (getattr ''device'' (device t)) (\<lambda>d.
        io_bind (emit (ToDevice d)) (\<lambda>_.
        io_return (t\<lparr>model := Some PeftModelFromViT,
                     tuner := Some (Some (env_new_tuner env c)),
                     head := Some (Some (env_new_head env c n_cls))\<rparr>)))))
      else io_return t)"

definition init_head_by_name :: "env \<Rightarrow> trainer \<Rightarrow> trainer io" where
  "init_head_by_name env t =
     (let c = cfg t in
      if init_head c = ''text_feat'' then init_head_text_feat env t
      else if init_head c \<in> set class_mean_names then init_head_class_mean env t
      else if init_head c = ''linear_probe'' then init_head_linear_probe env t
      else io_bind (emit (Print ''No initialization with head'')) (\<lambda>_. io_return t))"

definition build_model :: "env \<Rightarrow> trainer \<Rightarrow> trainer io" where
  "build_model env t =
     (let c = cfg t in
      io_bind (getattr ''classnames'' (classnames t)) (\<lambda>cn.
      let n_cls = length cn in
      io_bind (emit (Print ''Building model'')) (\<lambda>_.
      io_bind (construct_model env t n_cls) (\<lambda>t.
      io_bind
        (if \<not> (zero_shot c \<or> test_train c \<or> test_only c) then
           io_bind (build_optimizer t) (\<lambda>t.
           io_bind (build_criterion env t) (\<lambda>t.
           io_bind (init_head_by_name env t) (\<lambda>t.
           io_bind (emit EmptyCache) (\<lambda>_. io_return t))))
         else io_return t) (\<lambda>t.
      if 1 < env_device_count env \<and> gpu c = None then
        io_bind (emit (Print (''Multiple GPUs detected (n_gpus=''
                   @ string_of_nat (env_device_count env) @ ''), use all of them!''))) (\<lambda>_.
        io_bind (getattr ''model'' (model t)) (\<lambda>m.
        io_return (t\<lparr>model := Some (DataParallel m)\<rparr>)))
      else io_return t)))))"

subsection \<open>\<^verbatim>\<open>Trainer.__init__\<close>\<close>

definition Trainer_init :: "env \<Rightarrow> config \<Rightarrow> trainer io" where
  "Trainer_init env c =
     io_bind
       (if \<not> env_cuda_available env then io_return ''cpu''
        else (case gpu c of
                None \<Rightarrow> io_return ''cuda''
              | Some g \<Rightarrow> io_bind (emit (SetDevice g)) (\<lambda>_.
                          io_return (''cuda:'' @ string_of_nat g)))) (\<lambda>d.
     io_bind (build_data_loader env ((new_trainer c)\<lparr>device := Some d\<rparr>)) (\<lambda>t.
     io_bind (build_model env t) (\<lambda>t.
     io_return (t\<lparr>evaluator := Some [], writer := Some None\<rparr>))))"

subsection \<open>\<^verbatim>\<open>test\<close>\<close>

text \<open>
  A test batch is \<open>bsz\<close> rows of \<open>ncrops\<close> crops; the loader yields no empty batch.
  \<open>view_mean\<close> is \<^verbatim>\<open>output.view(_bsz, _ncrops, -1).mean(dim=1)\<close> on the entries of
  \<open>output\<close> in row-major order; \<open>stack_mean\<close> is \<^verbatim>\<open>torch.stack(output).mean(dim=0)\<close>,
  which accepts tensors of one shape only.
\<close>

definition view_mean :: "nat \<Rightarrow> nat \<Rightarrow> fval list \<Rightarrow> error + fval list list" where
  "view_mean bsz ncrops flat =
     (let L = length flat in
      if L = 0 \<or> L mod (bsz * ncrops) \<noteq> 0 then Inl RuntimeError
      else
        let d = L div (bsz * ncrops);
            viewed = map (chunks d) (chunks (ncrops * d) flat)
        in Inr (map (\<lambda>crops. map (\<lambda>j. fmean (map (\<lambda>v. v ! j) crops)) [0..<d]) viewed))"

fun is_pair :: "model_out \<Rightarrow> bool" where
  "is_pair (LogitsFeat _ _) = True"
| "is_pair (Logits _) = False"

fun logits_of :: "model_out \<Rightarrow> fval list list" where
  "logits_of (LogitsFeat out _) = out"
| "logits_of (Logits out) = out"

definition stack_mean :: "model_out list \<Rightarrow> error + fval list list" where
  "stack_mean outs =
     (if \<exists>out \<in> set outs. is_pair out then Inl TypeError
      else
        (case map logits_of outs of
           [] \<Rightarrow> Inl RuntimeError
         | m # ms \<Rightarrow>
             if \<exists>m' \<in> set ms. map length m' \<noteq> map length m then Inl RuntimeError
             else Inr (map (\<lambda>r. map (\<lambda>j. fmean (map (\<lambda>m'. m' ! r ! j) (m # ms)))
                                  [0..<length (m ! r)])
                         [0..<length m])))"

text \<open>
  The two branches of the loop body of \<^verbatim>\<open>test\<close> (lines 531--542), each on a batch
  \<open>img\<close> of \<open>bsz\<close> rows of \<open>ncrops\<close> crops: \<open>forward_vectorized\<close> is
  \<^verbatim>\<open>output, _ = self.model(image)\<close> followed by the mean over the crops, and
  \<open>forward_per_crop\<close> is the loop that appends \<^verbatim>\<open>self.model(image[:, k])\<close> for every
  crop \<open>k\<close>, followed by \<^verbatim>\<open>torch.stack(output).mean(dim=0)\<close>. Unpacking into two names
  accepts a pair, and a tensor of exactly two rows.
\<close>

definition forward_vectorized ::
  "(image list \<Rightarrow> model_out) \<Rightarrow> image list list \<Rightarrow> error + fval list list" where
  "forward_vectorized fwd img =
     (let bsz = length img;
          ncrops = (case img of [] \<Rightarrow> 0 | crops # _ \<Rightarrow> length crops)
      in
      case fwd (concat img) of
        LogitsFeat output _ \<Rightarrow> view_mean bsz ncrops (concat output)
      | Logits rows \<Rightarrow>
          if length rows = 2 then view_mean bsz ncrops (hd rows) else Inl ValueError)"

definition forward_per_crop ::
  "(image list \<Rightarrow> model_out) \<Rightarrow> image list list \<Rightarrow> error + fval list list" where
  "forward_per_crop fwd img =
     (let ncrops = (case img of [] \<Rightarrow> 0 | crops # _ \<Rightarrow> length crops)
      in stack_mean (map (\<lambda>k. fwd (map (\<lambda>crops. crops ! k) img)) [0..<ncrops]))"

definition test_forward ::
  "(image list \<Rightarrow> model_out) \<Rightarrow> image list list \<Rightarrow> error + fval list list" where
  "test_forward fwd img =
     (let ncrops = (case img of [] \<Rightarrow> 0 | crops # _ \<Rightarrow> length crops)
      in
      if ncrops \<le> 5 then forward_vectorized fwd img
      else forward_per_crop fwd img)"

fun ncrops_of :: "transform \<Rightarrow> nat" where
  "ncrops_of FiveCrop = 5"
| "ncrops_of TenCrop = 10"
| "ncrops_of (RandAug n) = n"
| "ncrops_of CenterCrop = 1"

text \<open>
  The items of a batch of indices. Only the test split yields the stacks of crops that
  \<^verbatim>\<open>test\<close> unpacks into five dimensions.
\<close>

definition fetch_batch :: "env \<Rightarrow> dataset \<Rightarrow> nat list \<Rightarrow> error + image list list \<times> nat list" where
  "fetch_batch env ds idxs =
     (case ds of
        TestSplit tr \<Rightarrow>
          if ncrops_of tr = 0 then Inl RuntimeError
          else Inr (map (\<lambda>i. map (env_test_item env i) [0..<ncrops_of tr]) idxs,
                    map (env_test_label env) idxs)
      | _ \<Rightarrow> Inl ValueError)"

fun test_batches ::
  "env \<Rightarrow> net option \<Rightarrow> dataset \<Rightarrow> nat list list \<Rightarrow> (fval list list \<times> nat list) list
     \<Rightarrow> error + (fval list list \<times> nat list) list" where
  "test_batches env mo ds [] acc = Inr acc"
| "test_batches env mo ds (b # bs) acc =
     (case fetch_batch env ds b of
        Inl e \<Rightarrow> Inl e
      | Inr (img, label) \<Rightarrow>
          (case mo of
             None \<Rightarrow> Inl (AttributeError ''model'')
           | Some m \<Rightarrow>
               (case test_forward (env_forward env m) img of
                  Inl e \<Rightarrow> Inl e
                | Inr output \<Rightarrow> test_batches env mo ds bs (acc @ [(output, label)]))))"

definition eval_mode :: "module \<Rightarrow> module" where
  "eval_mode m = m\<lparr>training := False\<rparr>"

definition emit_all :: "event list \<Rightarrow> unit io" where
  "emit_all evs = (\<lambda>tr. (Inr (), tr @ evs))"

definition test :: "env \<Rightarrow> trainer \<Rightarrow> string \<Rightarrow> (trainer \<times> rat) io" where
  "test env t mode =
     io_bind (getattr ''tuner'' (tuner t)) (\<lambda>tu.
     io_bind (getattr ''head'' (head t)) (\<lambda>he.
     io_bind (getattr ''evaluator'' (evaluator t)) (\<lambda>_.
     let t = t\<lparr>tuner := Some (map_option eval_mode tu), head := Some (map_option eval_mode he),
                evaluator := Some []\<rparr> in
     io_bind
       (if mode = ''train'' then
          io_bind (emit (Print ''Evaluate on the train set'')) (\<lambda>_.
          io_bind (getattr ''train_test_loader'' (train_test_loader t)) (\<lambda>l. io_return (Some l)))
        else if mode = ''test'' then
          io_bind (emit (Print ''Evaluate on the test set'')) (\<lambda>_.
          io_bind (getattr ''test_loader'' (test_loader t)) (\<lambda>l. io_return (Some l)))
        else io_return None) (\<lambda>dl.
     io_bind (getlocal ''data_loader'' dl) (\<lambda>data_loader.
     io_bind (io_lift (test_batches env (model t) (ld_dataset data_loader)
                (iter_batches data_loader []) [])) (\<lambda>processed.
     let results = env_evaluate env processed in
     io_bind (if results = [] then io_return ()
              else io_bind (getattr ''_writer'' (writer t)) (\<lambda>w.
                   case w of None \<Rightarrow> io_return ()
                   | Some _ \<Rightarrow> emit_all (map (\<lambda>kv. AddScalar (''test/'' @ fst kv)) results))) (\<lambda>_.
     case results of
       [] \<Rightarrow> io_raise IndexError
     | kv # _ \<Rightarrow> io_return (t\<lparr>evaluator := Some processed\<rparr>, snd kv))))))))"

subsection \<open>\<^verbatim>\<open>load_model\<close>\<close>

definition path_join :: "string \<Rightarrow> string \<Rightarrow> string" where
  "path_join a b = (if a = [] then b else if last a = CHR ''/'' then a @ b else a @ ''/'' @ b)"

definition dict_get :: "(string \<times> 'a) list \<Rightarrow> string \<Rightarrow> error + 'a" where
  "dict_get d k = (case map_of d k of None \<Rightarrow> Inl (KeyError k) | Some v \<Rightarrow> Inr v)"

text \<open>\<^verbatim>\<open>self.head.weight\<close>: the parameter named \<^verbatim>\<open>weight\<close> of the head.\<close>

definition module_weight :: "module \<Rightarrow> error + tensor" where
  "module_weight m =
     (case map_of (params m) ''weight'' of
        None \<Rightarrow> Inl (AttributeError ''weight'')
      | Some w \<Rightarrow> Inr w)"

definition load_model :: "env \<Rightarrow> trainer \<Rightarrow> string \<Rightarrow> trainer io" where
  "load_model env t directory =
     (let load_path = path_join directory ''checkpoint.pth.tar'' in
      case env_checkpoint env load_path of
        None \<Rightarrow> io_raise (FileNotFoundError load_path)
      | Some checkpoint \<Rightarrow>
          io_bind (io_lift (dict_get checkpoint ''tuner'')) (\<lambda>tuner_dict.
          io_bind (io_lift (dict_get checkpoint ''head'')) (\<lambda>head_dict.
          io_bind (emit (Print (''Loading weights to from '' @ load_path))) (\<lambda>_.
          io_bind (get_module ''tuner'' ''load_state_dict'' (tuner t)) (\<lambda>tu.
          io_bind (io_lift (env_load_state_dict env tuner_dict tu)) (\<lambda>tu'.
          let t = t\<lparr>tuner := Some (Some tu')\<rparr> in
          io_bind (io_lift (dict_get head_dict ''weight'')) (\<lambda>saved_weight.
          io_bind (get_module ''head'' ''weight'' (head t)) (\<lambda>he.
          io_bind (io_lift (module_weight he)) (\<lambda>weight.
          if fst saved_weight = fst weight then
            io_bind (io_lift (env_load_state_dict env head_dict he)) (\<lambda>he'.
            io_return (t\<lparr>head := Some (Some he')\<rparr>))
          else io_return t)))))))))"

section \<open>A concrete run\<close>

text \<open>
  A small instance of the collaborators, on which the operations evaluate: five training
  samples of two classes, a generator that adds no spurious label, a model whose scores
  for an image are its first two entries, and one checkpoint whose head has 37 outputs.
\<close>

definition demo_module :: "nat \<Rightarrow> module" where
  "demo_module n = \<lparr>training = True, params = [(''weight'', ([n, 4], []))]\<rparr>"

definition demo_forward :: "net \<Rightarrow> image list \<Rightarrow> model_out" where
  "demo_forward m imgs = LogitsFeat (map (map Fin \<circ> take 2) imgs) (map (map Fin) imgs)"

definition demo_env :: env where
  "demo_env =
     \<lparr>env_cuda_available = True,
      env_device_count = 1,
      env_train_labels = [0, 1, 0, 1, 0],
      env_classnames = [''A320'', ''B747''],
      env_test_len = 3,
      env_generate = map (\<lambda>l. (replicate 2 0)[l := 1]),
      env_other_loader = (\<lambda>name c tt. io_raise (ExternalError name)),
      env_clip_known = (\<lambda>name. name = ''ViT-B/16''),
      env_algorithm_known = (\<lambda>name. name = ''PRODEN''),
      env_new_tuner = (\<lambda>c. demo_module 4),
      env_new_neck = (\<lambda>c. demo_module 4),
      env_new_head = (\<lambda>c n. demo_module n),
      env_forward = demo_forward,
      env_text_features = (\<lambda>p. Inr ([2, 4], [])),
      env_class_means = (\<lambda>ld. Inr ([2, 4], [])),
      env_linear_probe = (\<lambda>ld. Inr ([2, 4], [])),
      env_apply_weight = (\<lambda>w m. Inr (m\<lparr>params := [(''weight'', w)]\<rparr>)),
      env_test_item = (\<lambda>i k. [of_nat i, of_nat k]),
      env_test_label = (\<lambda>i. i mod 2),
      env_evaluate = (\<lambda>ps. [(''acc'', of_nat (length ps))]),
      env_checkpoint = (\<lambda>path. if path = ''out/checkpoint.pth.tar''
                                then Some [(''tuner'', [(''weight'', ([4, 4], []))]),
                                           (''head'', [(''weight'', ([37, 4], []))])]
                                else None),
      env_load_state_dict = (\<lambda>sd m. Inr (m\<lparr>params := sd\<rparr>))\<rparr>"

definition demo_cfg :: config where
  "demo_cfg =
     \<lparr>gpu = None, backbone = ''CLIP-ViT-B/16'', prec = ''fp16'', tte = False, tte_mode = [],
      randaug_times = 0, test_train = False, test_only = False, zero_shot = False,
      dataset = ''fgvc100'', batch_size = 2, micro_batch_size = 1, loss_type = ''PRODEN'',
      init_head = ''text_feat'', prompt = ''default'', num_epochs = 1\<rparr>"

text \<open>A trainer that has loaded a two-row matrix, and one whose first row is empty.\<close>

definition demo_trainer :: trainer where
  "demo_trainer =
     (new_trainer demo_cfg)
       \<lparr>device := Some ''cuda'', partialY := Some [[1, 0], [1, 1]], num_instances := Some 2,
        num_classes := Some 2, model := Some PeftModelFromCLIP\<rparr>"

definition demo_trainer_empty_row :: trainer where
  "demo_trainer_empty_row = demo_trainer\<lparr>partialY := Some [[0, 0], [1, 0]]\<rparr>"

text \<open>A trainer whose first row has three candidates: one third is not a float32 value.\<close>

definition demo_trainer_thirds :: trainer where
  "demo_trainer_thirds =
     demo_trainer\<lparr>partialY := Some [[1, 1, 1], [0, 1, 0]], num_classes := Some 3\<rparr>"

definition demo_train_loader :: loader where
  "demo_train_loader =
     \<lparr>ld_dataset = FGVC100_Partialize [0, 1, 0, 1, 0]
                     [[1, 0], [0, 1], [1, 0], [0, 1], [1, 0]] [0, 1, 0, 1, 0],
      ld_len = 5, ld_batch_size = 2, ld_shuffle = True, ld_drop_last = True\<rparr>"

definition demo_test_loader :: loader where
  "demo_test_loader =
     \<lparr>ld_dataset = TestSplit CenterCrop, ld_len = 3, ld_batch_size = 2, ld_shuffle = False,
      ld_drop_last = False\<rparr>"

definition demo_env_missing_label :: env where
  "demo_env_missing_label = demo_env\<lparr>env_generate := map (\<lambda>l. [1, 1][l := 0])\<rparr>"

definition demo_train_loader_missing_label :: loader where
  "demo_train_loader_missing_label =
     \<lparr>ld_dataset = FGVC100_Partialize [0, 1, 0, 1, 0]
                     [[0, 1], [1, 0], [0, 1], [1, 0], [0, 1]] [0, 1, 0, 1, 0],
      ld_len = 5, ld_batch_size = 2, ld_shuffle = True, ld_drop_last = True\<rparr>"

text \<open>
  A configuration that selects the class-mean head initialisation, the trainer as
  \<^verbatim>\<open>build_data_loader\<close> leaves it on the demo data, and the same with the model built.
\<close>

definition demo_cfg_class_mean :: config where
  "demo_cfg_class_mean = demo_cfg\<lparr>init_head := ''class_mean''\<rparr>"

definition demo_trainer_loaded :: "config \<Rightarrow> trainer" where
  "demo_trainer_loaded c =
     (new_trainer c)
       \<lparr>device := Some ''cuda'', train_loader := Some demo_train_loader,
        partialY := Some [[1, 0], [0, 1], [1, 0], [0, 1], [1, 0]],
        test_loader := Some demo_test_loader, num_instances := Some 5, num_classes := Some 2,
        classnames := Some [''A320'', ''B747''], accum_step := Some 2\<rparr>"

definition demo_trainer_modelled :: "config \<Rightarrow> trainer" where
  "demo_trainer_modelled c =
     (demo_trainer_loaded c)
       \<lparr>model := Some PeftModelFromCLIP, tuner := Some (Some (demo_module 4)),
        head := Some (Some (demo_module 2))\<rparr>"

text \<open>Two more configurations: an unknown head initialisation, and a batch size of 3 with micro-batches of 2.\<close>

definition demo_cfg_unknown_head :: config where
  "demo_cfg_unknown_head = demo_cfg\<lparr>init_head := ''none''\<rparr>"

definition demo_cfg_indivisible :: config where
  "demo_cfg_indivisible = demo_cfg\<lparr>batch_size := 3, micro_batch_size := 2\<rparr>"

section \<open>Reasoning about operations\<close>

text \<open>When an operation returns normally: one equation per combinator.\<close>

lemma io_bind_Inr:
  "io_bind m f tr = (Inr y, tr') \<longleftrightarrow> (\<exists>x tr1. m tr = (Inr x, tr1) \<and> f x tr1 = (Inr y, tr'))"
  by (auto simp: io_bind_def split: prod.splits sum.splits)

lemma io_return_Inr: "io_return x tr = (Inr y, tr') \<longleftrightarrow> x = y \<and> tr' = tr"
  by (auto simp: io_return_def)

lemma io_raise_Inr: "io_raise e tr = (Inr y, tr') \<longleftrightarrow> False"
  by (simp add: io_raise_def)

lemma emit_Inr: "emit ev tr = (Inr y, tr') \<longleftrightarrow> tr' = tr @ [ev]"
  by (auto simp: emit_def)

lemma io_lift_Inr: "io_lift r tr = (Inr y, tr') \<longleftrightarrow> r = Inr y \<and> tr' = tr"
  by (auto simp: io_lift_def)

lemma getattr_Inr: "getattr n v tr = (Inr y, tr') \<longleftrightarrow> v = Some y \<and> tr' = tr"
  by (auto simp: getattr_def io_raise_def io_return_def split: option.splits)

lemma getlocal_Inr: "getlocal n v tr = (Inr y, tr') \<longleftrightarrow> v = Some y \<and> tr' = tr"
  by (auto simp: getlocal_def io_raise_def io_return_def split: option.splits)

lemma get_module_Inr: "get_module n w v tr = (Inr y, tr') \<longleftrightarrow> v = Some (Some y) \<and> tr' = tr"
  by (auto simp: get_module_def io_raise_def io_return_def split: option.splits)

lemmas io_Inr = io_bind_Inr io_return_Inr io_raise_Inr emit_Inr io_lift_Inr getattr_Inr
  getlocal_Inr get_module_Inr

subsection \<open>Confidence initialisation\<close>

lemma build_criterion_Inr:
  "build_criterion env t tr = (Inr t', tr') \<longleftrightarrow>
     (\<exists>Y N C m d. partialY t = Some Y \<and> num_instances t = Some N \<and> num_classes t = Some C
        \<and> env_algorithm_known env (loss_type (cfg t)) \<and> model t = Some m \<and> device t = Some d
        \<and> t' = t\<lparr>confidence := Some (uniform_targets Y), algorithm := Some (loss_type (cfg t))\<rparr>
        \<and> tr' = tr @ [Print ''Calculating uniform targets...'', ToCuda ''confidence'',
             Print (''torch.Size(['' @ string_of_nat N @ '', '' @ string_of_nat C @ ''])''),
             ToDevice d])"
  unfolding build_criterion_def Let_def
  by (auto simp: io_Inr simp del: string_of_nat.simps)

subsection \<open>Rounding to float32\<close>

lemma round_half_even_error: "\<bar>of_int (round_half_even y) - y\<bar> \<le> 1 / 2"
proof -
  have "of_int \<lfloor>y\<rfloor> \<le> y" "y < of_int \<lfloor>y\<rfloor> + 1" by linarith+
  then show ?thesis
    unfolding round_half_even_def Let_def by (auto simp: abs_le_iff)
qed

lemma round_half_even_of_int: "round_half_even (of_int z) = z"
  by (simp add: round_half_even_def)

lemma bitlen_pos:
  assumes p: "0 < p"
  shows "0 < bitlen p"
proof (rule ccontr)
  assume "\<not> 0 < bitlen p"
  then have "nat (bitlen p) = 0" by simp
  with bitlen_bounds[OF p] show False by auto
qed

lemma bitlen_powi:
  assumes "0 < p"
  shows "(2::rat) powi (bitlen p - 1) \<le> of_int p" and "of_int p < (2::rat) powi (bitlen p)"
proof -
  from bitlen_bounds[OF assms] have a: "2 ^ nat (bitlen p - 1) \<le> p" and b: "p < 2 ^ nat (bitlen p)"
    by auto
  have "(2::rat) powi (bitlen p - 1) = 2 ^ nat (bitlen p - 1)"
    using bitlen_pos[OF assms] by (simp add: power_int_def)
  also have "\<dots> = of_int (2 ^ nat (bitlen p - 1))" by simp
  also have "\<dots> \<le> of_int p" using a by (simp only: of_int_le_iff)
  finally show "(2::rat) powi (bitlen p - 1) \<le> of_int p" .
  have "of_int p < (of_int (2 ^ nat (bitlen p)) :: rat)" using b by (simp only: of_int_less_iff)
  also have "\<dots> = 2 powi (bitlen p)" using bitlen_pos[OF assms] by (simp add: power_int_def)
  finally show "of_int p < (2::rat) powi (bitlen p)" .
qed

lemma ilog2_bounds:
  assumes "0 < x"
  shows "power_int 2 (ilog2 x) \<le> x" and "x < power_int 2 (ilog2 x + 1)"
proof -
  obtain p q where pq: "quotient_of x = (p, q)" by (cases "quotient_of x")
  have q: "0 < q" using pq by (rule quotient_of_denom_pos)
  have x: "x = of_int p / of_int q" using pq by (rule quotient_of_div)
  have p: "0 < p" using assms q unfolding x by (simp add: zero_less_divide_iff)
  let ?d = "bitlen p - bitlen q"
  note P = bitlen_powi[OF p] and Q = bitlen_powi[OF q]
  have qr: "(0::rat) < of_int q" using q by simp
  have "(2::rat) powi (?d - 1) = 2 powi (bitlen p - 1) / 2 powi (bitlen q)"
    by (simp add: power_int_diff)
  also have "\<dots> \<le> of_int p / 2 powi (bitlen q)"
    using P(1) by (simp add: divide_right_mono)
  also have "\<dots> < of_int p / of_int q"
    using Q(2) p qr by (simp add: divide_strict_left_mono)
  finally have lo: "(2::rat) powi (?d - 1) < x" unfolding x .
  have "x < 2 powi (bitlen p) / of_int q"
    unfolding x using P(2) qr by (simp add: divide_strict_right_mono)
  also have "\<dots> \<le> 2 powi (bitlen p) / 2 powi (bitlen q - 1)"
    using Q(1) by (intro frac_le) simp_all
  also have "\<dots> = 2 powi (?d + 1)"
    by (simp add: power_int_diff power_int_add algebra_simps)
  finally have hi: "x < (2::rat) powi (?d + 1)" .
  show "power_int 2 (ilog2 x) \<le> x" using lo by (simp add: ilog2_def pq Let_def)
  show "x < power_int 2 (ilog2 x + 1)" using hi by (auto simp add: ilog2_def pq Let_def)
qed

text \<open>In the normal range the result is finite and the relative error at most \<open>2 ^ -24\<close>.\<close>

lemma round32_normal:
  assumes lo: "2 powi (- 126) \<le> x" and hi: "x \<le> 2 ^ 127"
  shows "\<exists>v. round32 x = Fin v \<and> \<bar>v - x\<bar> \<le> x / 2 ^ 24"
proof -
  have pos: "0 < x" using lo by (rule less_le_trans[rotated]) simp
  note b = ilog2_bounds[OF pos]
  have e: "- 126 \<le> ilog2 x"
  proof (rule ccontr)
    assume "\<not> - 126 \<le> ilog2 x"
    then have "ilog2 x + 1 \<le> - 126" by simp
    then have "(2::rat) powi (ilog2 x + 1) \<le> 2 powi (- 126)"
      by (intro power_int_increasing) simp_all
    with b(2) lo show False by simp
  qed
  define q :: rat where "q = 2 powi (ilog2 x - 23)"
  define m where "m = round_half_even (x / q)"
  have q0: "0 < q" by (simp add: q_def)
  have qx: "q \<le> x / 2 ^ 23"
  proof -
    have "q = 2 powi (ilog2 x) / 2 ^ 23" by (simp add: q_def power_int_diff)
    also have "\<dots> \<le> x / 2 ^ 23" using b(1) by (simp add: divide_right_mono)
    finally show ?thesis .
  qed
  have "\<bar>of_int m - x / q\<bar> \<le> 1 / 2" unfolding m_def by (rule round_half_even_error)
  then have "\<bar>of_int m - x / q\<bar> * q \<le> 1 / 2 * q" using q0 by (simp add: mult_right_mono)
  moreover have "\<bar>of_int m - x / q\<bar> * q = \<bar>(of_int m - x / q) * q\<bar>"
    using q0 by (simp add: abs_mult)
  moreover have "(of_int m - x / q) * q = of_int m * q - x"
    using q0 by (simp add: left_diff_distrib)
  ultimately have err: "\<bar>of_int m * q - x\<bar> \<le> q / 2" by simp
  also have "q / 2 \<le> x / 2 ^ 24" using qx by simp
  finally have err': "\<bar>of_int m * q - x\<bar> \<le> x / 2 ^ 24" .
  then have "of_int m * q - x \<le> x / 2 ^ 24" by (rule order_trans[OF abs_ge_self])
  then have "of_int m * q \<le> x + x / 2 ^ 24" by linarith
  also have "\<dots> < 2 ^ 128" using hi by simp
  finally have nov: "\<not> 2 ^ 128 \<le> of_int m * q" by simp
  have "round32 x = Fin (of_int m * q)"
    using pos e nov by (simp add: round32_def Let_def max_def q_def m_def)
  with err' show ?thesis by blast
qed

text \<open>A natural number below \<open>2 ^ 24\<close> is a float32 value.\<close>

lemma round32_of_nat:
  assumes "n < 2 ^ 24"
  shows "round32 (of_nat n) = Fin (of_nat n)"
proof (cases "n = 0")
  case True
  then show ?thesis by (simp add: round32_def)
next
  case False
  let ?x = "of_nat n :: rat"
  have pos: "0 < ?x" using False by simp
  note b = ilog2_bounds[OF pos]
  define E where "E = max (ilog2 ?x) (- 126)"
  have E: "E \<le> 23"
  proof (rule ccontr)
    assume "\<not> E \<le> 23"
    then have "24 \<le> ilog2 ?x" by (simp add: E_def max_def split: if_splits)
    then have "(2::rat) powi 24 \<le> 2 powi (ilog2 ?x)"
      by (intro power_int_increasing) simp_all
    with b(1) have "(2::rat) ^ 24 \<le> of_nat n" by simp
    then have "(of_nat (2 ^ 24) :: rat) \<le> of_nat n" by simp
    then have "2 ^ 24 \<le> n" by (simp only: of_nat_le_iff)
    with assms show False by simp
  qed
  define q :: rat where "q = 2 powi (E - 23)"
  have q: "q = 1 / 2 ^ nat (23 - E)"
  proof -
    have "E - 23 = - int (nat (23 - E))" using E by simp
    then have "q = 2 powi (- int (nat (23 - E)))" by (simp add: q_def)
    then show ?thesis by (simp only: power_int_minus_divide power_int_of_nat)
  qed
  have "?x / q = of_int (int n * 2 ^ nat (23 - E))" by (simp add: q)
  then have m: "round_half_even (?x / q) = int n * 2 ^ nat (23 - E)"
    by (simp only: round_half_even_of_int)
  have v: "of_int (round_half_even (?x / q)) * q = ?x" by (simp add: m) (simp add: q)
  have "?x < 2 ^ 128"
  proof -
    have "?x < of_nat (2 ^ 24)" using assms by (simp only: of_nat_less_iff)
    also have "\<dots> \<le> 2 ^ 128" by simp
    finally show ?thesis .
  qed
  then have nov: "\<not> 2 ^ 128 \<le> ?x" by simp
  show ?thesis
    using pos nov v False
    by (simp add: round32_def Let_def E_def[symmetric] q_def[symmetric])
qed

lemma round32_inverse:
  assumes "0 < k" and "k < 2 ^ 24"
  shows "\<exists>v. round32 (1 / of_nat k) = Fin v \<and> \<bar>v - 1 / of_nat k\<bar> \<le> (1 / of_nat k) / 2 ^ 24"
proof (rule round32_normal)
  have k: "(of_nat k :: rat) \<le> 2 ^ 24"
  proof -
    have "(of_nat k :: rat) \<le> of_nat (2 ^ 24)" using assms(2) by (simp only: of_nat_le_iff)
    then show ?thesis by simp
  qed
  have "(2::rat) powi (- 126) \<le> 1 / 2 ^ 24" by (simp add: power_int_minus_divide)
  also have "\<dots> \<le> 1 / of_nat k" using k assms(1) by (intro divide_left_mono) simp_all
  finally show "2 powi (- 126) \<le> 1 / (of_nat k :: rat)" .
  have "1 / (of_nat k :: rat) \<le> 1" using assms(1) by simp
  also have "\<dots> \<le> 2 ^ 127" by simp
  finally show "1 / (of_nat k :: rat) \<le> 2 ^ 127" .
qed

subsection \<open>Rows of the confidence matrix\<close>

lemma uniform_row:
  "i < length Y \<Longrightarrow>
   uniform_targets Y ! i
     = map (\<lambda>y. fdiv (float_of_nat y) (fsum (map float_of_nat (Y ! i)))) (Y ! i)"
  by (simp add: uniform_targets_def row_sums_repeated_def Let_def zip_replicate2 map_zip_map2
      zip_same_conv_map)

lemma uniform_targets_length: "length (uniform_targets Y) = length Y"
  by (simp add: uniform_targets_def row_sums_repeated_def Let_def)

lemma float_of_nat_bit:
  assumes "y \<in> {0, 1}"
  shows "float_of_nat y = Fin (of_nat y)"
  unfolding float_of_nat_def using assms by (intro round32_of_nat) auto

lemma round32_zero: "round32 0 = Fin 0"
  by (simp add: round32_def)

lemma count_ones_pos: "(1::nat) \<in> set row \<Longrightarrow> 0 < count_list row 1"
  by (metis count_list_0_iff gr0I)

lemma foldl_fadd_bits:
  assumes "set row \<subseteq> {0, 1}" and "c + length row < 2 ^ 24"
  shows "foldl fadd (Fin (of_nat c)) (map float_of_nat row) = Fin (of_nat (c + count_list row 1))"
  using assms
proof (induction row arbitrary: c)
  case Nil
  then show ?case by simp
next
  case (Cons y row)
  then have y: "y \<in> {0, 1}" by simp
  have "fadd (Fin (of_nat c)) (float_of_nat y) = round32 (of_nat (c + y))"
    by (simp add: float_of_nat_bit[OF y])
  also have "\<dots> = Fin (of_nat (c + y))"
    using y Cons.prems(2) by (intro round32_of_nat) auto
  finally have step: "fadd (Fin (of_nat c)) (float_of_nat y) = Fin (of_nat (c + y))" .
  have "foldl fadd (Fin (of_nat (c + y))) (map float_of_nat row)
          = Fin (of_nat (c + y + count_list row 1))"
    using Cons.prems y by (intro Cons.IH) auto
  with step y show ?case by auto
qed

lemma fsum_bits:
  assumes "set row \<subseteq> {0, 1}" and "length row < 2 ^ 24"
  shows "fsum (map float_of_nat row) = Fin (of_nat (count_list row 1))"
  using foldl_fadd_bits[of row 0] assms by (simp add: fsum_def)

lemma fsum_zeros:
  assumes "set row \<subseteq> {0}"
  shows "fsum (map float_of_nat row) = Fin 0"
  unfolding fsum_def using assms
  by (induction row) (auto simp: float_of_nat_def round32_zero)

lemma uniform_row_bits:
  assumes "set row \<subseteq> {0, 1}" and "1 \<in> set row" and "length row < 2 ^ 24"
  shows "map (\<lambda>y. fdiv (float_of_nat y) (fsum (map float_of_nat row))) row
         = map (\<lambda>y. if y = 1 then round32 (1 / of_nat (count_list row 1)) else Fin 0) row"
proof (rule map_cong[OF refl])
  fix y assume "y \<in> set row"
  then have y: "y \<in> {0, 1}" using assms(1) by auto
  have k: "(of_nat (count_list row 1) :: rat) \<noteq> 0" using count_ones_pos[OF assms(2)] by simp
  show "fdiv (float_of_nat y) (fsum (map float_of_nat row))
        = (if y = 1 then round32 (1 / of_nat (count_list row 1)) else Fin 0)"
    using y k by (auto simp: fsum_bits[OF assms(1,3)] float_of_nat_bit[OF y] round32_zero)
qed

lemma row_total:
  "sum_list (map finite_value (map (\<lambda>y. if y = 1 then Fin v else Fin 0) row))
     = of_nat (count_list row (1::nat)) * v"
  by (induction row) (auto simp: algebra_simps)

lemma NaN_row:
  assumes "i < length Y" and "set (Y ! i) \<subseteq> {0}"
  shows "uniform_targets Y ! i = replicate (length (Y ! i)) NaN"
proof -
  have "map (\<lambda>y. fdiv (float_of_nat y) (Fin 0)) (Y ! i) = map (\<lambda>y. NaN) (Y ! i)"
  proof (rule map_cong[OF refl])
    fix y assume "y \<in> set (Y ! i)"
    then have "y = 0" using assms(2) by auto
    then show "fdiv (float_of_nat y) (Fin 0) = NaN"
      by (simp add: float_of_nat_def round32_zero)
  qed
  then show ?thesis
    by (simp add: uniform_row[OF assms(1)] fsum_zeros[OF assms(2)] map_replicate_const)
qed

subsection \<open>Batches of a data loader\<close>

declare chunks.simps [simp del]

lemma concat_full_chunks:
  "0 < n \<Longrightarrow> concat (filter (\<lambda>b. length b = n) (chunks n xs)) = take (length xs div n * n) xs"
proof (induction n xs rule: chunks.induct)
  case (1 n xs)
  show ?case
  proof (cases "xs = []")
    case True
    then show ?thesis by (simp add: chunks.simps)
  next
    case False
    show ?thesis
    proof (cases "n \<le> length xs")
      case True
      then have d: "length xs div n = Suc ((length xs - n) div n)"
        using "1.prems" by (simp add: le_div_geq)
      have "concat (filter (\<lambda>b. length b = n) (chunks n xs))
            = take n xs @ concat (filter (\<lambda>b. length b = n) (chunks n (drop n xs)))"
        using False True "1.prems" by (subst chunks.simps) (simp add: min_def)
      also have "\<dots> = take n xs @ take ((length xs - n) div n * n) (drop n xs)"
        using "1.IH" False "1.prems" by simp
      also have "\<dots> = take (length xs div n * n) xs"
        by (simp add: d take_add add.commute)
      finally show ?thesis .
    next
      case False
      then have "length xs div n = 0" by simp
      moreover have "chunks n xs = [xs]"
        using \<open>xs \<noteq> []\<close> False "1.prems" by (subst chunks.simps) (simp add: chunks.simps)
      ultimately show ?thesis using False by simp
    qed
  qed
qed

lemma io_when_Inr:
  "io_when b m tr = (Inr y, tr') \<longleftrightarrow> (if b then m tr = (Inr y, tr') else tr' = tr)"
  by (auto simp: io_when_def io_return_def)

lemma DataLoader_Inr:
  "DataLoader ds n bs sh dl = Inr ld \<longleftrightarrow>
     0 < bs \<and> ld = \<lparr>ld_dataset = ds, ld_len = n, ld_batch_size = nat bs, ld_shuffle = sh,
                     ld_drop_last = dl\<rparr>"
  by (auto simp: DataLoader_def)

lemma load_fgvc100_eq:
  assumes "0 < batch_size c" and "env_train_labels env \<noteq> []"
    and "one_hot_like (env_generate env (env_train_labels env)) (env_train_labels env) = Inr temp"
  shows "load_fgvc100 env c tt tr =
     (Inr (\<lparr>ld_dataset = FGVC100_Partialize (env_train_labels env)
                (env_generate env (env_train_labels env)) (env_train_labels env),
             ld_len = length (env_train_labels env), ld_batch_size = nat (batch_size c),
             ld_shuffle = True, ld_drop_last = True\<rparr>,
           env_generate env (env_train_labels env),
           \<lparr>ld_dataset = TestSplit tt, ld_len = env_test_len env,
             ld_batch_size = nat (batch_size c), ld_shuffle = False, ld_drop_last = False\<rparr>,
           length (env_train_labels env), length (env_classnames env), env_classnames env),
      tr @ [Print (string_of_nat (length (env_classnames env))), ToCuda ''wide_resnet50_2'']
         @ (if masked_sum (env_generate env (env_train_labels env)) temp
                 = length (env_generate env (env_train_labels env))
            then [Print ''data loading done !''] else []))"
  using assms
  by (simp add: load_fgvc100_def Let_def io_bind_def io_lift_def DataLoader_def emit_def
      io_when_def io_return_def del: string_of_nat.simps)

lemma load_fgvc100_Inr:
  assumes "load_fgvc100 env c tt tr = (Inr r, tr')"
  shows "0 < batch_size c \<and> env_train_labels env \<noteq> []
         \<and> (\<exists>temp. one_hot_like (env_generate env (env_train_labels env)) (env_train_labels env)
                = Inr temp)"
  using assms unfolding load_fgvc100_def Let_def
  by (auto simp: io_Inr DataLoader_Inr simp del: string_of_nat.simps)

lemma epoch_indices_train:
  assumes "ld_shuffle ld" and "ld_drop_last ld" and "0 < ld_batch_size ld"
  shows "epoch_indices ld perm = take (length perm div ld_batch_size ld * ld_batch_size ld) perm"
  using assms by (simp add: epoch_indices_def iter_batches_def Let_def concat_full_chunks)

lemma perm_of_upt:
  assumes "mset perm = mset [0..<N]"
  shows "length perm = N" and "distinct perm" and "set perm = {0..<N}"
proof -
  show "length perm = N" using assms by (metis length_upt mset_eq_length minus_nat.diff_0)
  show "distinct perm" using assms by (metis distinct_upt mset_eq_imp_distinct_iff)
  show "set perm = {0..<N}" using assms by (metis mset_eq_setD set_upt)
qed

subsection \<open>What the construction steps leave unchanged\<close>

lemma assign_loaded_Inr:
  "assign_loaded t r tr = (Inr t', tr') \<Longrightarrow>
   cfg t' = cfg t \<and> device t' = device t \<and> tuner t' = tuner t \<and> head t' = head t
   \<and> evaluator t' = evaluator t
   \<and> train_test_loader t' = train_test_loader t \<and> train_init_loader t' = train_init_loader t"
  by (auto simp: assign_loaded_def io_Inr split: prod.splits)

lemma build_data_loader_Inr:
  "build_data_loader env t tr = (Inr t', tr') \<Longrightarrow>
   cfg t' = cfg t \<and> device t' = device t \<and> tuner t' = tuner t \<and> head t' = head t
   \<and> evaluator t' = evaluator t
   \<and> train_test_loader t' = train_test_loader t \<and> train_init_loader t' = train_init_loader t"
  unfolding build_data_loader_def Let_def
  by (auto simp: io_Inr split: if_splits dest!: assign_loaded_Inr)

lemma construct_model_Inr:
  "construct_model env t n tr = (Inr t', tr') \<Longrightarrow>
   cfg t' = cfg t \<and> evaluator t' = evaluator t
   \<and> train_test_loader t' = train_test_loader t \<and> train_init_loader t' = train_init_loader t
   \<and> (zero_shot (cfg t) \<longrightarrow> tuner t' = Some None \<and> head t' = Some None)"
  unfolding construct_model_def Let_def
  by (auto simp: io_Inr split: if_splits)

lemma build_optimizer_Inr:
  "build_optimizer t tr = (Inr t', tr') \<Longrightarrow>
   cfg t' = cfg t \<and> evaluator t' = evaluator t \<and> model t' = model t
   \<and> tuner t' = tuner t \<and> head t' = head t
   \<and> train_test_loader t' = train_test_loader t \<and> train_init_loader t' = train_init_loader t
   \<and> (\<exists>tu. tuner t = Some (Some tu)) \<and> (\<exists>he. head t = Some (Some he)) \<and> (\<exists>m. model t = Some m)"
  unfolding build_optimizer_def Let_def
  by (auto simp: io_Inr split: if_splits)

lemma build_criterion_frame:
  "build_criterion env t tr = (Inr t', tr') \<Longrightarrow>
   cfg t' = cfg t \<and> evaluator t' = evaluator t \<and> model t' = model t
   \<and> tuner t' = tuner t \<and> head t' = head t
   \<and> train_test_loader t' = train_test_loader t \<and> train_init_loader t' = train_init_loader t"
  by (auto simp: build_criterion_Inr)

lemma init_head_by_name_Inr:
  "init_head_by_name env t tr = (Inr t', tr') \<Longrightarrow>
   cfg t' = cfg t \<and> evaluator t' = evaluator t \<and> model t' = model t \<and> tuner t' = tuner t
   \<and> train_test_loader t' = train_test_loader t \<and> train_init_loader t' = train_init_loader t
   \<and> (head t' = head t \<or> (\<exists>he. head t' = Some (Some he)))"
  unfolding init_head_by_name_def init_head_text_feat_def init_head_class_mean_def
    init_head_linear_probe_def Let_def
  by (auto simp: io_Inr split: if_splits)

lemma build_model_Inr:
  assumes "build_model env t tr = (Inr t', tr')"
  shows "cfg t' = cfg t \<and> evaluator t' = evaluator t
   \<and> train_test_loader t' = train_test_loader t \<and> train_init_loader t' = train_init_loader t
   \<and> classnames t \<noteq> None
   \<and> (zero_shot (cfg t) \<or> test_train (cfg t) \<or> test_only (cfg t) \<or> (tuner t' \<noteq> None \<and> head t' \<noteq> None))
   \<and> (zero_shot (cfg t) \<longrightarrow> tuner t' \<noteq> None \<and> head t' \<noteq> None)"
proof -
  from assms obtain cn t1 tr1 t2 tr2 where
    cn: "classnames t = Some cn"
    and cm: "construct_model env t (length cn) (tr @ [Print ''Building model'']) = (Inr t1, tr1)"
    and mid: "(if \<not> (zero_shot (cfg t) \<or> test_train (cfg t) \<or> test_only (cfg t)) then
           io_bind (build_optimizer t1) (\<lambda>t.
           io_bind (build_criterion env t) (\<lambda>t.
           io_bind (init_head_by_name env t) (\<lambda>t.
           io_bind (emit EmptyCache) (\<lambda>_. io_return t))))
         else io_return t1) tr1 = (Inr t2, tr2)"
    and fin: "(if 1 < env_device_count env \<and> gpu (cfg t) = None then
        io_bind (emit (Print (''Multiple GPUs detected (n_gpus=''
                   @ string_of_nat (env_device_count env) @ ''), use all of them!''))) (\<lambda>_.
        io_bind (getattr ''model'' (model t2)) (\<lambda>m.
        io_return (t2\<lparr>model := Some (DataParallel m)\<rparr>)))
      else io_return t2) tr2 = (Inr t', tr')"
    unfolding build_model_def Let_def by (auto simp: io_Inr simp del: string_of_nat.simps)
  note c1 = construct_model_Inr[OF cm]
  have c2: "cfg t2 = cfg t1 \<and> evaluator t2 = evaluator t1
     \<and> train_test_loader t2 = train_test_loader t1 \<and> train_init_loader t2 = train_init_loader t1
     \<and> (zero_shot (cfg t) \<or> test_train (cfg t) \<or> test_only (cfg t)
          \<or> (tuner t2 \<noteq> None \<and> head t2 \<noteq> None))
     \<and> (zero_shot (cfg t) \<longrightarrow> tuner t2 = tuner t1 \<and> head t2 = head t1)"
  proof (cases "zero_shot (cfg t) \<or> test_train (cfg t) \<or> test_only (cfg t)")
    case True
    with mid show ?thesis by (auto simp: io_Inr)
  next
    case False
    with mid obtain a tra b trb c trc where
      bo: "build_optimizer t1 tr1 = (Inr a, tra)"
      and bc: "build_criterion env a tra = (Inr b, trb)"
      and ih: "init_head_by_name env b trb = (Inr c, trc)"
      and e: "t2 = c"
      by (auto simp: io_Inr)
    from build_optimizer_Inr[OF bo] build_criterion_frame[OF bc] init_head_by_name_Inr[OF ih]
      False e
    show ?thesis by auto
  qed
  have c3: "cfg t' = cfg t2 \<and> evaluator t' = evaluator t2 \<and> tuner t' = tuner t2 \<and> head t' = head t2
     \<and> train_test_loader t' = train_test_loader t2 \<and> train_init_loader t' = train_init_loader t2"
    using fin by (auto simp: io_Inr split: if_splits simp del: string_of_nat.simps)
  from cn c1 c2 c3 show ?thesis by auto
qed

lemma Trainer_init_Inr:
  assumes "Trainer_init env c tr = (Inr t, tr')"
  shows "cfg t = c \<and> evaluator t = Some [] \<and> tuner t \<noteq> None \<and> head t \<noteq> None
     \<and> train_test_loader t = None \<and> train_init_loader t = None"
proof -
  from assms obtain d tra t1 trb t2 where
    bdl: "build_data_loader env ((new_trainer c)\<lparr>device := Some d\<rparr>) tra = (Inr t1, trb)"
    and bm: "build_model env t1 trb = (Inr t2, tr')"
    and t: "t = t2\<lparr>evaluator := Some [], writer := Some None\<rparr>"
    unfolding Trainer_init_def by (auto simp: io_Inr)
  note a = build_data_loader_Inr[OF bdl] and b = build_model_Inr[OF bm]
  have cfg1: "cfg t1 = c" and none: "train_test_loader t1 = None" "train_init_loader t1 = None"
    using a by (simp_all add: new_trainer_def)
  have flags: "\<not> (test_train c \<or> test_only c)"
  proof
    assume f: "test_train c \<or> test_only c"
    have "build_data_loader env ((new_trainer c)\<lparr>device := Some d\<rparr>) tra = (Inr t1, trb)
          \<Longrightarrow> classnames t1 = None"
      unfolding build_data_loader_def Let_def using f
      by (auto simp: io_Inr new_trainer_def split: if_splits)
    with bdl b show False by simp
  qed
  from b cfg1 flags have "tuner t2 \<noteq> None \<and> head t2 \<noteq> None" by auto
  with b cfg1 none t show ?thesis by simp
qed

lemma build_data_loader_classnames:
  assumes "build_data_loader env t tr = (Inr t', tr')" and "classnames t = None"
    and "classnames t' \<noteq> None"
  shows "\<not> test_train (cfg t) \<and> \<not> test_only (cfg t)"
  using assms unfolding build_data_loader_def Let_def
  by (auto simp: io_Inr split: if_splits)

lemma init_head_by_name_unassigned:
  assumes "train_init_loader t = None"
    and "init_head (cfg t) \<in> set class_mean_names \<or> init_head (cfg t) = ''linear_probe''"
  shows "init_head_by_name env t tr
         = (Inl (AttributeError ''train_init_loader''),
            tr @ [Print (if init_head (cfg t) \<in> set class_mean_names
                         then ''Initialize head with class means''
                         else ''Initialize head with linear probing'')])"
  using assms
  by (auto simp: init_head_by_name_def init_head_class_mean_def init_head_linear_probe_def
      class_mean_names_def io_bind_def emit_def getattr_def io_raise_def)

lemma demo_trainer_loaded_cfg: "cfg (demo_trainer_loaded c) = c"
  by (simp add: demo_trainer_loaded_def new_trainer_def)

lemma init_head_by_name_unknown:
  assumes "init_head (cfg t) \<noteq> ''text_feat''" and "init_head (cfg t) \<notin> set class_mean_names"
    and "init_head (cfg t) \<noteq> ''linear_probe''"
  shows "init_head_by_name env t tr = (Inr t, tr @ [Print ''No initialization with head''])"
  using assms by (simp add: init_head_by_name_def io_bind_def emit_def io_return_def)

lemma build_data_loader_indivisible:
  assumes "micro_batch_size (cfg t) \<noteq> 0"
    and "batch_size (cfg t) mod micro_batch_size (cfg t) \<noteq> 0"
    and "dataset (cfg t) = ''fgvc100''" and "\<not> test_train (cfg t)" and "\<not> test_only (cfg t)"
    and "test_transform (cfg t) = Some tt"
    and "0 < batch_size (cfg t)" and "env_train_labels env \<noteq> []"
    and "one_hot_like (env_generate env (env_train_labels env)) (env_train_labels env) = Inr temp"
  shows "\<exists>evs. build_data_loader env t tr = (Inl AssertionError, tr @ evs)
           \<and> ToCuda ''wide_resnet50_2'' \<in> set evs"
  unfolding build_data_loader_def Let_def
  using assms load_fgvc100_eq[OF assms(7-9), of tt]
  by (simp add: io_bind_def emit_def getlocal_def io_return_def io_raise_def assign_loaded_def
      del: string_of_nat.simps)

section \<open>Claims\<close>

text \<open>
  C2. Let the attributes that \<^verbatim>\<open>build_criterion\<close> reads be assigned and the algorithm
  name be known, and let every row of the partial-label matrix hold only 0 and 1, hold a 1,
  and have fewer than \<open>2 ^ 24\<close> entries (so that the float32 sum of the row is its number
  of candidates). Then \<^verbatim>\<open>build_criterion\<close> returns, and the confidence it assigns has,
  in every row \<open>i\<close> with \<open>k\<close> candidates, the float32 quotient of 1 by \<open>k\<close> where the mask is
  1 and the value 0 where the mask is 0. That quotient is a finite value within the
  relative error \<open>2 ^ -24\<close> of \<open>1 / k\<close>, and the entries of the row add up to 1 within
  \<open>2 ^ -24\<close>.
\<close>

theorem confidence_init_uniform:
  assumes Y: "partialY t = Some Y" and "num_instances t = Some N" and "num_classes t = Some C"
    and "model t = Some m" and "device t = Some d"
    and "env_algorithm_known env (loss_type (cfg t))"
    and bits: "\<forall>row \<in> set Y. set row \<subseteq> {0, 1} \<and> 1 \<in> set row \<and> length row < 2 ^ 24"
    and i: "i < length Y"
  shows "\<exists>t' tr' conf v.
           build_criterion env t tr = (Inr t', tr')
           \<and> confidence t' = Some conf \<and> length conf = length Y
           \<and> conf ! i = map (\<lambda>y. if y = 1 then Fin v else Fin 0) (Y ! i)
           \<and> round32 (1 / of_nat (count_list (Y ! i) 1)) = Fin v
           \<and> \<bar>v - 1 / of_nat (count_list (Y ! i) 1)\<bar> \<le> 1 / of_nat (count_list (Y ! i) 1) / 2 ^ 24
           \<and> \<bar>sum_list (map finite_value (conf ! i)) - 1\<bar> \<le> 1 / 2 ^ 24"
proof -
  let ?row = "Y ! i"
  let ?k = "count_list ?row 1"
  from bits i have row: "set ?row \<subseteq> {0, 1}" "1 \<in> set ?row" "length ?row < 2 ^ 24" by auto
  have pos: "0 < ?k" by (rule count_ones_pos[OF row(2)])
  have "?k \<le> length ?row" by (rule count_le_length)
  with row(3) have small: "?k < 2 ^ 24" by simp
  from round32_inverse[OF pos small] obtain v where
    v: "round32 (1 / of_nat ?k) = Fin v" and err: "\<bar>v - 1 / of_nat ?k\<bar> \<le> 1 / of_nat ?k / 2 ^ 24"
    by blast
  have eq: "uniform_targets Y ! i = map (\<lambda>y. if y = 1 then Fin v else Fin 0) ?row"
    by (simp only: uniform_row[OF i] uniform_row_bits[OF row] v)
  have kr: "(0::rat) < of_nat ?k" using pos by simp
  have "\<bar>of_nat ?k * v - 1\<bar> = of_nat ?k * \<bar>v - 1 / of_nat ?k\<bar>"
  proof -
    have "of_nat ?k * v - 1 = of_nat ?k * (v - 1 / of_nat ?k)"
      using kr by (simp add: right_diff_distrib)
    then show ?thesis using kr by (simp add: abs_mult)
  qed
  also have "\<dots> \<le> of_nat ?k * (1 / of_nat ?k / 2 ^ 24)"
    using err kr by (intro mult_left_mono) simp_all
  also have "\<dots> = 1 / 2 ^ 24" using kr by simp
  finally have bound: "\<bar>of_nat ?k * v - 1\<bar> \<le> 1 / 2 ^ 24" .
  have "sum_list (map finite_value (uniform_targets Y ! i)) = of_nat ?k * v"
    by (simp only: eq row_total)
  with bound have total:
    "\<bar>sum_list (map finite_value (uniform_targets Y ! i)) - 1\<bar> \<le> 1 / 2 ^ 24"
    by simp
  have run: "build_criterion env t tr
      = (Inr (t\<lparr>confidence := Some (uniform_targets Y), algorithm := Some (loss_type (cfg t))\<rparr>),
         tr @ [Print ''Calculating uniform targets...'', ToCuda ''confidence'',
               Print (''torch.Size(['' @ string_of_nat N @ '', '' @ string_of_nat C @ ''])''),
               ToDevice d])"
    using assms(1-6) by (simp add: build_criterion_Inr del: string_of_nat.simps)
  show ?thesis
    using run eq v err total by (simp add: uniform_targets_length del: string_of_nat.simps)
qed

theorem confidence_init_uniform_witness:
  "partialY demo_trainer_thirds = Some [[1, 1, 1], [0, 1, 0]]
   \<and> num_instances demo_trainer_thirds = Some 2
   \<and> num_classes demo_trainer_thirds = Some 3
   \<and> model demo_trainer_thirds = Some PeftModelFromCLIP
   \<and> device demo_trainer_thirds = Some ''cuda''
   \<and> env_algorithm_known demo_env (loss_type (cfg demo_trainer_thirds))
   \<and> set [1, 1, 1 :: nat] \<subseteq> {0, 1} \<and> (1 :: nat) \<in> set [1, 1, 1]
   \<and> length [1, 1, 1 :: nat] < 2 ^ 24
   \<and> set [0, 1, 0 :: nat] \<subseteq> {0, 1} \<and> (1 :: nat) \<in> set [0, 1, 0]
   \<and> length [0, 1, 0 :: nat] < 2 ^ 24
   \<and> (0 :: nat) < length [[1, 1, 1], [0, 1, 0 :: nat]]
   \<and> (\<exists>t' tr' conf.
         build_criterion demo_env demo_trainer_thirds [] = (Inr t', tr')
         \<and> confidence t' = Some conf \<and> length conf = 2
         \<and> conf ! 0 = [Fin (11184811 / 33554432), Fin (11184811 / 33554432),
                        Fin (11184811 / 33554432)]
         \<and> \<bar>sum_list (map finite_value (conf ! 0)) - 1\<bar> \<le> 1 / 2 ^ 24)"
proof -
  have h: "partialY demo_trainer_thirds = Some [[1, 1, 1], [0, 1, 0]]"
    "num_instances demo_trainer_thirds = Some 2"
    "num_classes demo_trainer_thirds = Some 3"
    "model demo_trainer_thirds = Some PeftModelFromCLIP"
    "device demo_trainer_thirds = Some ''cuda''"
    "env_algorithm_known demo_env (loss_type (cfg demo_trainer_thirds))"
    by (simp_all add: demo_trainer_thirds_def demo_trainer_def new_trainer_def demo_env_def
        demo_cfg_def)
  have bits: "\<forall>row \<in> set [[1, 1, 1], [0, 1, 0 :: nat]].
      set row \<subseteq> {0, 1} \<and> 1 \<in> set row \<and> length row < 2 ^ 24"
    by simp
  have i: "(0 :: nat) < length [[1, 1, 1], [0, 1, 0 :: nat]]" by simp
  have third: "round32 (1 / 3) = Fin (11184811 / 33554432)" by code_simp
  from confidence_init_uniform[OF h bits i, of "[]"] obtain t' tr' conf v where
    r: "build_criterion demo_env demo_trainer_thirds [] = (Inr t', tr')"
      "confidence t' = Some conf" "length conf = 2"
      "conf ! 0 = [Fin v, Fin v, Fin v]"
      "round32 (1 / 3) = Fin v"
      "\<bar>sum_list (map finite_value (conf ! 0)) - 1\<bar> \<le> 1 / 2 ^ 24"
    by auto
  from r(5) third have "v = 11184811 / 33554432" by simp
  with r h i show ?thesis by simp
qed

text \<open>
  C3, as the code has it. The claim says that an all-zero row makes the normalisation fail
  with an error of its own. The code has no such check: with the attributes that
  \<^verbatim>\<open>build_criterion\<close> reads assigned and a known algorithm name, it returns normally
  on every matrix, and the confidence row of an all-zero row \<open>i\<close> is NaN in every entry
  (the quotient 0/0).
\<close>

theorem empty_row_confidence_nan:
  assumes "partialY t = Some Y" and "num_instances t = Some N" and "num_classes t = Some C"
    and "model t = Some m" and "device t = Some d"
    and "env_algorithm_known env (loss_type (cfg t))"
    and "i < length Y" and "set (Y ! i) \<subseteq> {0}"
  shows "\<exists>t' tr'. build_criterion env t tr = (Inr t', tr')
           \<and> confidence t' = Some (uniform_targets Y)
           \<and> uniform_targets Y ! i = replicate (length (Y ! i)) NaN"
  using assms NaN_row[of i Y] by (simp add: build_criterion_Inr)

theorem empty_row_confidence_nan_witness:
  "partialY demo_trainer_empty_row = Some [[0, 0], [1, 0]]
   \<and> num_instances demo_trainer_empty_row = Some 2
   \<and> num_classes demo_trainer_empty_row = Some 2
   \<and> model demo_trainer_empty_row = Some PeftModelFromCLIP
   \<and> device demo_trainer_empty_row = Some ''cuda''
   \<and> env_algorithm_known demo_env (loss_type (cfg demo_trainer_empty_row))
   \<and> (0 :: nat) < length [[0, 0], [1, 0 :: nat]]
   \<and> set ([[0, 0], [1, 0 :: nat]] ! 0) \<subseteq> {0}
   \<and> (\<exists>t' tr'. build_criterion demo_env demo_trainer_empty_row [] = (Inr t', tr')
         \<and> confidence t' = Some (uniform_targets [[0, 0], [1, 0]])
         \<and> uniform_targets [[0, 0], [1, 0]] ! 0 = [NaN, NaN])"
proof -
  have h: "partialY demo_trainer_empty_row = Some [[0, 0], [1, 0]]"
    "num_instances demo_trainer_empty_row = Some 2"
    "num_classes demo_trainer_empty_row = Some 2"
    "model demo_trainer_empty_row = Some PeftModelFromCLIP"
    "device demo_trainer_empty_row = Some ''cuda''"
    "env_algorithm_known demo_env (loss_type (cfg demo_trainer_empty_row))"
    by (simp_all add: demo_trainer_empty_row_def demo_trainer_def new_trainer_def demo_env_def
        demo_cfg_def)
  have i: "(0 :: nat) < length [[0, 0], [1, 0 :: nat]]" "set ([[0, 0], [1, 0 :: nat]] ! 0) \<subseteq> {0}"
    by simp_all
  from empty_row_confidence_nan[OF h i, of "[]"] h i show ?thesis by simp
qed

text \<open>
  C3, as the claim states it, fails: on the matrix \<open>[[0, 0], [1, 0]]\<close> the operation
  returns normally and stores a first confidence row of NaN.
\<close>

theorem empty_row_no_error_counterexample:
  "build_criterion demo_env demo_trainer_empty_row []
     = (Inr (demo_trainer_empty_row\<lparr>confidence := Some [[NaN, NaN], [Fin 1, Fin 0]],
                                     algorithm := Some ''PRODEN''\<rparr>),
        [Print ''Calculating uniform targets...'', ToCuda ''confidence'',
         Print ''torch.Size([2, 2])'', ToDevice ''cuda''])"
  by code_simp

subsection \<open>C6: indices yielded by the training loader in one epoch\<close>

text \<open>
  Claim C6 (amended). The training loader returned by \<^verbatim>\<open>load_fgvc100\<close> is built with
  \<^verbatim>\<open>shuffle=True\<close> and \<^verbatim>\<open>drop_last=True\<close>. For every shuffle order \<open>perm\<close> of the \<open>N\<close>
  training indices, one epoch yields the first \<open>N div B * B\<close> positions of \<open>perm\<close>, where \<open>B\<close>
  is \<^verbatim>\<open>cfg.batch_size\<close>: no index is yielded twice, every yielded index is below \<open>N\<close>,
  exactly \<open>N - N mod B\<close> indices are yielded, and all \<open>N\<close> indices are yielded
  if and only if \<open>B\<close> divides \<open>N\<close>.
\<close>

theorem train_epoch_indices:
  assumes run: "load_fgvc100 env c tt tr = (Inr (ld, Y, tsl, N, C, cn), tr')"
    and perm: "mset perm = mset [0..<N]"
  shows "epoch_indices ld perm = take (N div nat (batch_size c) * nat (batch_size c)) perm
       \<and> distinct (epoch_indices ld perm)
       \<and> set (epoch_indices ld perm) \<subseteq> {0..<N}
       \<and> length (epoch_indices ld perm) = N - N mod nat (batch_size c)
       \<and> ((set (epoch_indices ld perm) = {0..<N}) = (nat (batch_size c) dvd N))"
proof -
  let ?B = "nat (batch_size c)"
  from load_fgvc100_Inr[OF run] obtain temp where
    pos: "0 < batch_size c" and ne: "env_train_labels env \<noteq> []"
    and oh: "one_hot_like (env_generate env (env_train_labels env)) (env_train_labels env) = Inr temp"
    by blast
  from run load_fgvc100_eq[OF pos ne oh, of tt tr]
  have ld: "ld_shuffle ld" "ld_drop_last ld" "ld_batch_size ld = ?B"
    and N: "N = length (env_train_labels env)"
    by auto
  have B: "0 < ?B" using pos by simp
  note p = perm_of_upt[OF perm]
  have eq: "epoch_indices ld perm = take (N div ?B * ?B) perm"
    using epoch_indices_train[of ld perm] ld B p(1) by simp
  have k: "N div ?B * ?B = N - N mod ?B"
    by (simp add: minus_mod_eq_div_mult)
  have len: "length (epoch_indices ld perm) = N - N mod ?B"
    using p(1) by (simp add: eq k)
  have dist: "distinct (epoch_indices ld perm)"
    using p(2) by (simp add: eq)
  have sub: "set (epoch_indices ld perm) \<subseteq> {0..<N}"
    using p(3) set_take_subset[of "N div ?B * ?B" perm] by (simp add: eq)
  have iff: "(set (epoch_indices ld perm) = {0..<N}) = (?B dvd N)"
  proof
    assume "set (epoch_indices ld perm) = {0..<N}"
    then have "card (set (epoch_indices ld perm)) = N" by simp
    then have "N - N mod ?B = N" using dist len by (simp add: distinct_card)
    then have "N mod ?B = 0" using B
      by (metis diff_diff_cancel diff_self_eq_0 mod_less_eq_dividend)
    then show "?B dvd N" by auto
  next
    assume "?B dvd N"
    then have "N div ?B * ?B = N" by simp
    then show "set (epoch_indices ld perm) = {0..<N}" using p by (simp add: eq)
  qed
  from eq dist sub len iff show ?thesis by blast
qed

theorem train_epoch_indices_witness:
  "load_fgvc100 demo_env demo_cfg CenterCrop []
     = (Inr (demo_train_loader, [[1, 0], [0, 1], [1, 0], [0, 1], [1, 0]], demo_test_loader,
             5, 2, [''A320'', ''B747'']),
        [Print ''2'', ToCuda ''wide_resnet50_2'', Print ''data loading done !''])
   \<and> mset [3, 1, 4, 0, 2] = mset [0..<5]
   \<and> epoch_indices demo_train_loader [3, 1, 4, 0, 2] = [3, 1, 4, 0]
   \<and> distinct (epoch_indices demo_train_loader [3, 1, 4, 0, 2])
   \<and> length (epoch_indices demo_train_loader [3, 1, 4, 0, 2]) = 4"
proof -
  have run: "load_fgvc100 demo_env demo_cfg CenterCrop []
     = (Inr (demo_train_loader, [[1, 0], [0, 1], [1, 0], [0, 1], [1, 0]], demo_test_loader,
             5, 2, [''A320'', ''B747'']),
        [Print ''2'', ToCuda ''wide_resnet50_2'', Print ''data loading done !''])"
    by code_simp
  have perm: "mset [3, 1, 4, 0, 2] = mset [0..<5::nat]"
    by code_simp
  have B: "nat (batch_size demo_cfg) = 2" by (simp add: demo_cfg_def)
  from train_epoch_indices[OF run perm] run perm show ?thesis
    by (simp add: B)
qed

theorem train_epoch_omits_index_counterexample:
  "load_fgvc100 demo_env demo_cfg CenterCrop []
     = (Inr (demo_train_loader, [[1, 0], [0, 1], [1, 0], [0, 1], [1, 0]], demo_test_loader,
             5, 2, [''A320'', ''B747'']),
        [Print ''2'', ToCuda ''wide_resnet50_2'', Print ''data loading done !''])
   \<and> epoch_indices demo_train_loader [3, 1, 4, 0, 2] = [3, 1, 4, 0]
   \<and> 2 \<notin> set (epoch_indices demo_train_loader [3, 1, 4, 0, 2])"
  by code_simp

subsection \<open>C1: the check on the generated candidate labels\<close>

text \<open>
  Claim C1 (amended). After candidate-label generation \<^verbatim>\<open>load_fgvc100\<close> compares the sum of
  (candidate matrix times one-hot true labels) with the number of samples, and the only
  effect of the comparison is the message \<^verbatim>\<open>data loading done !\<close> when the two are equal.
  When they differ, no error is raised and nothing is printed: \<^verbatim>\<open>load_fgvc100\<close> goes on
  to wrap the generated matrix in the training data set, builds the training loader and
  returns normally.
\<close>

theorem failed_label_check_is_silent:
  assumes "0 < batch_size c" and "env_train_labels env \<noteq> []"
    and "one_hot_like (env_generate env (env_train_labels env)) (env_train_labels env) = Inr temp"
    and "masked_sum (env_generate env (env_train_labels env)) temp
           \<noteq> length (env_generate env (env_train_labels env))"
  shows "load_fgvc100 env c tt tr =
     (Inr (\<lparr>ld_dataset = FGVC100_Partialize (env_train_labels env)
                (env_generate env (env_train_labels env)) (env_train_labels env),
             ld_len = length (env_train_labels env), ld_batch_size = nat (batch_size c),
             ld_shuffle = True, ld_drop_last = True\<rparr>,
           env_generate env (env_train_labels env),
           \<lparr>ld_dataset = TestSplit tt, ld_len = env_test_len env,
             ld_batch_size = nat (batch_size c), ld_shuffle = False, ld_drop_last = False\<rparr>,
           length (env_train_labels env), length (env_classnames env), env_classnames env),
      tr @ [Print (string_of_nat (length (env_classnames env))), ToCuda ''wide_resnet50_2''])"
  using assms load_fgvc100_eq[of c env temp tt tr] by simp

theorem failed_label_check_is_silent_witness:
  "0 < batch_size demo_cfg
   \<and> env_train_labels demo_env_missing_label \<noteq> []
   \<and> one_hot_like (env_generate demo_env_missing_label (env_train_labels demo_env_missing_label))
        (env_train_labels demo_env_missing_label) = Inr [[1, 0], [0, 1], [1, 0], [0, 1], [1, 0]]
   \<and> masked_sum (env_generate demo_env_missing_label (env_train_labels demo_env_missing_label))
        [[1, 0], [0, 1], [1, 0], [0, 1], [1, 0]] = 0
   \<and> length (env_generate demo_env_missing_label (env_train_labels demo_env_missing_label)) = 5
   \<and> load_fgvc100 demo_env_missing_label demo_cfg CenterCrop []
       = (Inr (demo_train_loader_missing_label, [[0, 1], [1, 0], [0, 1], [1, 0], [0, 1]],
               demo_test_loader, 5, 2, [''A320'', ''B747'']),
          [Print ''2'', ToCuda ''wide_resnet50_2''])"
proof -
  have b: "batch_size demo_cfg = 2" by (simp add: demo_cfg_def)
  have l: "env_train_labels demo_env_missing_label = [0, 1, 0, 1, 0]"
    by (simp add: demo_env_missing_label_def demo_env_def)
  have g: "env_generate demo_env_missing_label [0, Suc 0, 0, Suc 0, 0]
             = [[0, 1], [1, 0], [0, 1], [1, 0], [0, 1]]"
    by code_simp
  have cn: "env_classnames demo_env_missing_label = [''A320'', ''B747'']"
    by (simp add: demo_env_missing_label_def demo_env_def)
  have tl: "env_test_len demo_env_missing_label = 3"
    by (simp add: demo_env_missing_label_def demo_env_def)
  have oh: "one_hot_like [[0, Suc 0], [Suc 0, 0], [0, Suc 0], [Suc 0, 0], [0, Suc 0]]
              [0, Suc 0, 0, Suc 0, 0]
              = Inr [[1, 0], [0, 1], [1, 0], [0, 1], [1, 0]]"
    by code_simp
  have ms: "masked_sum [[0, Suc 0], [Suc 0, 0], [0, Suc 0], [Suc 0, 0], [0, Suc 0]]
              [[Suc 0, 0], [0, Suc 0], [Suc 0, 0], [0, Suc 0], [Suc 0, 0]] = 0"
    by code_simp
  have s: "string_of_nat (Suc (Suc 0)) = ''2''" by code_simp
  from failed_label_check_is_silent[of demo_cfg demo_env_missing_label
        "[[1, 0], [0, 1], [1, 0], [0, 1], [1, 0]]" CenterCrop "[]"]
  show ?thesis
    by (simp add: b l g cn tl oh ms s demo_train_loader_missing_label_def demo_test_loader_def
        del: string_of_nat.simps)
qed

theorem failed_label_check_continues_counterexample:
  "masked_sum [[0, 1], [1, 0], [0, 1], [1, 0], [0, 1]] [[1, 0], [0, 1], [1, 0], [0, 1], [1, 0]]
     \<noteq> length [[0, 1], [1, 0], [0, 1], [1, 0], [0::nat, 1]]
   \<and> load_fgvc100 demo_env_missing_label demo_cfg CenterCrop []
       = (Inr (demo_train_loader_missing_label, [[0, 1], [1, 0], [0, 1], [1, 0], [0, 1]],
               demo_test_loader, 5, 2, [''A320'', ''B747'']),
          [Print ''2'', ToCuda ''wide_resnet50_2''])
   \<and> \<not> isl (fst (Trainer_init demo_env_missing_label demo_cfg []))"
  by code_simp

subsection \<open>C9: head initialisation from training features\<close>

text \<open>
  Claim C9 (amended). \<^verbatim>\<open>init_head_class_mean\<close> and \<^verbatim>\<open>init_head_linear_probe\<close> read
  \<^verbatim>\<open>self.train_init_loader\<close>, which \<^verbatim>\<open>build_data_loader\<close> leaves unassigned. Let the
  configuration select one of the two strategies and not be zero-shot, and let
  \<^verbatim>\<open>build_model\<close>, run on the trainer that \<^verbatim>\<open>build_data_loader\<close> returned, have built
  the model, the optimizer and the criterion. Then \<^verbatim>\<open>build_model\<close> fails with the
  attribute error for \<^verbatim>\<open>train_init_loader\<close>, right after the message of the strategy.
\<close>

theorem head_init_needs_train_init_loader:
  assumes bdl: "build_data_loader env ((new_trainer c)\<lparr>device := Some d\<rparr>) tr0 = (Inr t, tr)"
    and cn: "classnames t = Some cn"
    and zs: "\<not> zero_shot c"
    and sel: "init_head c \<in> set class_mean_names \<or> init_head c = ''linear_probe''"
    and cm: "construct_model env t (length cn) (tr @ [Print ''Building model'']) = (Inr t1, tr1)"
    and bo: "build_optimizer t1 tr1 = (Inr t2, tr2)"
    and bc: "build_criterion env t2 tr2 = (Inr t3, tr3)"
  shows "build_model env t tr
         = (Inl (AttributeError ''train_init_loader''),
            tr3 @ [Print (if init_head c \<in> set class_mean_names
                          then ''Initialize head with class means''
                          else ''Initialize head with linear probing'')])"
proof -
  note a = build_data_loader_Inr[OF bdl]
  have c: "cfg t = c" and none: "train_init_loader t = None"
    using a by (simp_all add: new_trainer_def)
  have flags: "\<not> test_train c \<and> \<not> test_only c"
    using build_data_loader_classnames[OF bdl] cn by (simp add: new_trainer_def)
  from construct_model_Inr[OF cm] build_optimizer_Inr[OF bo] build_criterion_frame[OF bc] c none
  have t3: "cfg t3 = c" "train_init_loader t3 = None" by simp_all
  have ih: "init_head_by_name env t3 tr3
         = (Inl (AttributeError ''train_init_loader''),
            tr3 @ [Print (if init_head c \<in> set class_mean_names
                          then ''Initialize head with class means''
                          else ''Initialize head with linear probing'')])"
    using init_head_by_name_unassigned[of t3 env tr3] t3 sel by simp
  show ?thesis
    unfolding build_model_def Let_def
    using cn c zs flags cm bo bc ih
    by (simp add: io_bind_def getattr_def io_return_def emit_def del: string_of_nat.simps)
qed

theorem head_init_needs_train_init_loader_witness:
  "build_model demo_env (demo_trainer_loaded demo_cfg_class_mean)
     [Print ''mean: [0.48145466, 0.4578275, 0.40821073]'',
      Print ''std: [0.26862954, 0.26130258, 0.27577711]'',
      Print ''2'', ToCuda ''wide_resnet50_2'', Print ''data loading done !'',
      Print ''num_classes: 2'']
     = (Inl (AttributeError ''train_init_loader''),
        [Print ''mean: [0.48145466, 0.4578275, 0.40821073]'',
         Print ''std: [0.26862954, 0.26130258, 0.27577711]'',
         Print ''2'', ToCuda ''wide_resnet50_2'', Print ''data loading done !'',
         Print ''num_classes: 2'',
         Print ''Building model'', Print ''Loading CLIP (backbone: CLIP-ViT-B/16)'',
         ToDevice ''cuda'',
         Print ''Turning off gradients in the model'', Print ''Turning on gradients in the tuner'',
         Print ''Turning on gradients in the head'', Print ''Total params'', Print ''Tuned params'',
         Print ''Head params'',
         Print ''Calculating uniform targets...'', ToCuda ''confidence'',
         Print ''torch.Size([5, 2])'', ToDevice ''cuda'',
         Print ''Initialize head with class means''])"
proof -
  let ?t = "demo_trainer_loaded demo_cfg_class_mean"
  let ?t1 = "demo_trainer_modelled demo_cfg_class_mean"
  let ?t2 = "?t1\<lparr>optim := Some (demo_module 4, demo_module 2), sched := Some 1,
                  scaler := Some False\<rparr>"
  let ?tr = "[Print ''mean: [0.48145466, 0.4578275, 0.40821073]'',
              Print ''std: [0.26862954, 0.26130258, 0.27577711]'',
              Print ''2'', ToCuda ''wide_resnet50_2'', Print ''data loading done !'',
              Print ''num_classes: 2'']"
  let ?tr1 = "?tr @ [Print ''Building model'', Print ''Loading CLIP (backbone: CLIP-ViT-B/16)'',
               ToDevice ''cuda'']"
  let ?tr2 = "?tr1 @ [Print ''Turning off gradients in the model'',
                Print ''Turning on gradients in the tuner'',
                Print ''Turning on gradients in the head'', Print ''Total params'',
                Print ''Tuned params'', Print ''Head params'']"
  have bdl: "build_data_loader demo_env ((new_trainer demo_cfg_class_mean)\<lparr>device := Some ''cuda''\<rparr>) []
     = (Inr ?t, ?tr)"
    by code_simp
  have cn: "classnames ?t = Some [''A320'', ''B747'']"
    by (simp add: demo_trainer_loaded_def)
  have zs: "\<not> zero_shot demo_cfg_class_mean"
    by (simp add: demo_cfg_class_mean_def demo_cfg_def)
  have sel: "init_head demo_cfg_class_mean \<in> set class_mean_names
             \<or> init_head demo_cfg_class_mean = ''linear_probe''"
    by (simp add: demo_cfg_class_mean_def class_mean_names_def)
  have cm: "construct_model demo_env ?t (length [''A320'', ''B747'']) (?tr @ [Print ''Building model''])
     = (Inr ?t1, ?tr1)"
    by code_simp
  have bo: "build_optimizer ?t1 ?tr1 = (Inr ?t2, ?tr2)"
    by code_simp
  have s: "string_of_nat 5 = ''5''" "string_of_nat 2 = ''2''" by code_simp+
  have bc: "build_criterion demo_env ?t2 ?tr2
     = (Inr (?t2\<lparr>confidence := Some (uniform_targets [[1, 0], [0, 1], [1, 0], [0, 1], [1, 0]]),
                  algorithm := Some (loss_type (cfg ?t2))\<rparr>),
        ?tr2 @ [Print ''Calculating uniform targets...'', ToCuda ''confidence'',
                Print (''torch.Size(['' @ string_of_nat 5 @ '', '' @ string_of_nat 2 @ ''])''),
                ToDevice ''cuda''])"
    by (simp add: build_criterion_Inr demo_trainer_modelled_def demo_trainer_loaded_def
        new_trainer_def demo_cfg_class_mean_def demo_cfg_def demo_env_def
        del: string_of_nat.simps)
  from head_init_needs_train_init_loader[OF bdl cn zs sel cm bo bc]
  show ?thesis
    by (simp add: s demo_cfg_class_mean_def class_mean_names_def del: string_of_nat.simps)
qed

text \<open>
  C9, as the claim states it, fails for a zero-shot configuration: \<^verbatim>\<open>build_model\<close> skips
  head initialisation and returns normally although \<^verbatim>\<open>init_head\<close> is \<^verbatim>\<open>class_mean\<close>.
\<close>

theorem zero_shot_skips_head_init_counterexample:
  "init_head (demo_cfg_class_mean\<lparr>zero_shot := True\<rparr>) \<in> set class_mean_names
   \<and> build_model demo_env (demo_trainer_loaded (demo_cfg_class_mean\<lparr>zero_shot := True\<rparr>)) []
       = (Inr ((demo_trainer_loaded (demo_cfg_class_mean\<lparr>zero_shot := True\<rparr>))
                 \<lparr>model := Some ZeroShotCLIP, tuner := Some None, head := Some None\<rparr>),
          [Print ''Building model'', Print ''Loading CLIP (backbone: CLIP-ViT-B/16)'',
           ToDevice ''cuda''])"
  by code_simp

subsection \<open>C10: an unrecognised head initialisation\<close>

text \<open>
  Claim C10. Let \<^verbatim>\<open>cfg.init_head\<close> be none of \<^verbatim>\<open>text_feat\<close>, \<^verbatim>\<open>class_mean\<close>,
  \<^verbatim>\<open>1_shot\<close>, \<^verbatim>\<open>10_shot\<close>, \<^verbatim>\<open>100_shot\<close> and \<^verbatim>\<open>linear_probe\<close>, and let
  \<^verbatim>\<open>build_model\<close> reach the choice of the head initialisation: the configuration is not
  zero-shot or test-only, and the model, the optimizer and the criterion have been built.
  Then \<^verbatim>\<open>build_model\<close> prints \<^verbatim>\<open>No initialization with head\<close>, raises no error and
  returns; the head and the tuner are those of the model as it was built.
\<close>

theorem unknown_init_head_is_skipped:
  assumes cn: "classnames t = Some cn"
    and flags: "\<not> zero_shot (cfg t)" "\<not> test_train (cfg t)" "\<not> test_only (cfg t)"
    and unknown: "init_head (cfg t) \<noteq> ''text_feat''" "init_head (cfg t) \<notin> set class_mean_names"
      "init_head (cfg t) \<noteq> ''linear_probe''"
    and cm: "construct_model env t (length cn) (tr @ [Print ''Building model'']) = (Inr t1, tr1)"
    and bo: "build_optimizer t1 tr1 = (Inr t2, tr2)"
    and bc: "build_criterion env t2 tr2 = (Inr t3, tr3)"
  shows "\<exists>t'. build_model env t tr
            = (Inr t',
               tr3 @ [Print ''No initialization with head'', EmptyCache]
                 @ (if 1 < env_device_count env \<and> gpu (cfg t) = None
                    then [Print (''Multiple GPUs detected (n_gpus=''
                            @ string_of_nat (env_device_count env) @ ''), use all of them!'')]
                    else []))
          \<and> head t' = head t1 \<and> tuner t' = tuner t1"
proof -
  from construct_model_Inr[OF cm] build_optimizer_Inr[OF bo] build_criterion_frame[OF bc]
  have t3: "cfg t3 = cfg t" "head t3 = head t1" "tuner t3 = tuner t1"
    and "\<exists>m. model t3 = Some m"
    by auto
  then obtain m where m: "model t3 = Some m" by blast
  have ih: "init_head_by_name env t3 tr3 = (Inr t3, tr3 @ [Print ''No initialization with head''])"
    using init_head_by_name_unknown[of t3 env tr3] unknown t3 by simp
  have "build_model env t tr
      = (Inr (if 1 < env_device_count env \<and> gpu (cfg t) = None
              then t3\<lparr>model := Some (DataParallel m)\<rparr> else t3),
         tr3 @ [Print ''No initialization with head'', EmptyCache]
           @ (if 1 < env_device_count env \<and> gpu (cfg t) = None
              then [Print (''Multiple GPUs detected (n_gpus=''
                      @ string_of_nat (env_device_count env) @ ''), use all of them!'')]
              else []))"
    unfolding build_model_def Let_def
    using cn flags cm bo bc ih m
    by (simp add: io_bind_def getattr_def io_return_def emit_def del: string_of_nat.simps)
  then show ?thesis
    using t3 by (simp del: string_of_nat.simps)
qed

theorem unknown_init_head_is_skipped_witness:
  "\<exists>t'. build_model demo_env (demo_trainer_loaded demo_cfg_unknown_head) []
      = (Inr t',
         [Print ''Building model'', Print ''Loading CLIP (backbone: CLIP-ViT-B/16)'',
          ToDevice ''cuda'',
          Print ''Turning off gradients in the model'', Print ''Turning on gradients in the tuner'',
          Print ''Turning on gradients in the head'', Print ''Total params'',
          Print ''Tuned params'', Print ''Head params'',
          Print ''Calculating uniform targets...'', ToCuda ''confidence'',
          Print ''torch.Size([5, 2])'', ToDevice ''cuda'',
          Print ''No initialization with head'', EmptyCache])
     \<and> head t' = Some (Some (demo_module 2)) \<and> tuner t' = Some (Some (demo_module 4))"
proof -
  let ?t = "demo_trainer_loaded demo_cfg_unknown_head"
  let ?t1 = "demo_trainer_modelled demo_cfg_unknown_head"
  let ?t2 = "?t1\<lparr>optim := Some (demo_module 4, demo_module 2), sched := Some 1,
                  scaler := Some False\<rparr>"
  let ?tr1 = "[Print ''Building model'', Print ''Loading CLIP (backbone: CLIP-ViT-B/16)'',
               ToDevice ''cuda'']"
  let ?tr2 = "?tr1 @ [Print ''Turning off gradients in the model'',
                Print ''Turning on gradients in the tuner'',
                Print ''Turning on gradients in the head'', Print ''Total params'',
                Print ''Tuned params'', Print ''Head params'']"
  have cn: "classnames ?t = Some [''A320'', ''B747'']"
    by (simp add: demo_trainer_loaded_def)
  have flags: "\<not> zero_shot (cfg ?t)" "\<not> test_train (cfg ?t)" "\<not> test_only (cfg ?t)"
    by (simp_all add: demo_trainer_loaded_cfg demo_cfg_unknown_head_def demo_cfg_def)
  have unknown: "init_head (cfg ?t) \<noteq> ''text_feat''" "init_head (cfg ?t) \<notin> set class_mean_names"
    "init_head (cfg ?t) \<noteq> ''linear_probe''"
    by (simp_all add: demo_trainer_loaded_cfg demo_cfg_unknown_head_def class_mean_names_def)
  have cm: "construct_model demo_env ?t (length [''A320'', ''B747'']) ([] @ [Print ''Building model''])
     = (Inr ?t1, ?tr1)"
    by code_simp
  have bo: "build_optimizer ?t1 ?tr1 = (Inr ?t2, ?tr2)"
    by code_simp
  have s: "string_of_nat 5 = ''5''" "string_of_nat 2 = ''2''" by code_simp+
  have bc: "build_criterion demo_env ?t2 ?tr2
     = (Inr (?t2\<lparr>confidence := Some (uniform_targets [[1, 0], [0, 1], [1, 0], [0, 1], [1, 0]]),
                  algorithm := Some (loss_type (cfg ?t2))\<rparr>),
        ?tr2 @ [Print ''Calculating uniform targets...'', ToCuda ''confidence'',
                Print (''torch.Size(['' @ string_of_nat 5 @ '', '' @ string_of_nat 2 @ ''])''),
                ToDevice ''cuda''])"
    by (simp add: build_criterion_Inr demo_trainer_modelled_def demo_trainer_loaded_def
        new_trainer_def demo_cfg_unknown_head_def demo_cfg_def demo_env_def
        del: string_of_nat.simps)
  have g: "env_device_count demo_env = 1"
    by (simp add: demo_env_def)
  have h: "head ?t1 = Some (Some (demo_module 2))" "tuner ?t1 = Some (Some (demo_module 4))"
    by (simp_all add: demo_trainer_modelled_def)
  from unknown_init_head_is_skipped[OF cn flags unknown cm bo bc]
  show ?thesis
    by (simp add: s g h del: string_of_nat.simps)
qed

subsection \<open>C8: evaluation on the training split\<close>

text \<open>
  Claim C8. No step of \<^verbatim>\<open>__init__\<close> assigns \<^verbatim>\<open>train_test_loader\<close>. On every trainer that
  \<^verbatim>\<open>__init__\<close> has constructed, \<^verbatim>\<open>test(mode="train")\<close> prints its message and fails with
  the attribute error for \<^verbatim>\<open>train_test_loader\<close>, whatever the data and the model are: no
  batch is fetched.
\<close>

theorem test_on_train_split_fails:
  assumes "Trainer_init env c tr0 = (Inr t, tr1)"
  shows "test env' t ''train'' tr
         = (Inl (AttributeError ''train_test_loader''), tr @ [Print ''Evaluate on the train set''])"
proof -
  from Trainer_init_Inr[OF assms] obtain tu he where
    "tuner t = Some tu" "head t = Some he" "evaluator t = Some []" "train_test_loader t = None"
    by auto
  then show ?thesis
    by (simp add: test_def io_bind_def getattr_def io_return_def io_raise_def emit_def)
qed

theorem test_on_train_split_fails_witness:
  "\<exists>t tr1. Trainer_init demo_env (demo_cfg\<lparr>zero_shot := True\<rparr>) [] = (Inr t, tr1)
     \<and> test demo_env t ''train'' []
         = (Inl (AttributeError ''train_test_loader''), [Print ''Evaluate on the train set''])"
proof -
  have "\<not> isl (fst (Trainer_init demo_env (demo_cfg\<lparr>zero_shot := True\<rparr>) []))"
    by code_simp
  then obtain t tr1 where r: "Trainer_init demo_env (demo_cfg\<lparr>zero_shot := True\<rparr>) [] = (Inr t, tr1)"
    by (cases "Trainer_init demo_env (demo_cfg\<lparr>zero_shot := True\<rparr>) []";
        cases "fst (Trainer_init demo_env (demo_cfg\<lparr>zero_shot := True\<rparr>) [])") auto
  from test_on_train_split_fails[OF r, of demo_env "[]"] r show ?thesis by auto
qed

subsection \<open>C5: loading a checkpoint whose head has another shape\<close>

text \<open>
  Claim C5. Let the checkpoint file exist and hold the entries \<^verbatim>\<open>tuner\<close> and \<^verbatim>\<open>head\<close>,
  let the tuner accept the saved tuner state, and let the saved head hold a \<^verbatim>\<open>weight\<close>
  whose shape differs from the shape of the weight of the current head. Then
  \<^verbatim>\<open>load_model\<close> returns without error, the tuner is the one loaded from the
  checkpoint, and the head is left as it was.
\<close>

theorem head_shape_mismatch_skips_head:
  assumes "env_checkpoint env (path_join directory ''checkpoint.pth.tar'') = Some checkpoint"
    and "map_of checkpoint ''tuner'' = Some tuner_dict"
    and "map_of checkpoint ''head'' = Some head_dict"
    and "tuner t = Some (Some tu)"
    and "env_load_state_dict env tuner_dict tu = Inr tu'"
    and "map_of head_dict ''weight'' = Some saved_weight"
    and "head t = Some (Some he)"
    and "map_of (params he) ''weight'' = Some weight"
    and "fst saved_weight \<noteq> fst weight"
  shows "load_model env t directory tr
         = (Inr (t\<lparr>tuner := Some (Some tu')\<rparr>),
            tr @ [Print (''Loading weights to from '' @ path_join directory ''checkpoint.pth.tar'')])"
  using assms
  by (simp add: load_model_def Let_def dict_get_def module_weight_def get_module_def
      io_bind_def io_lift_def io_return_def emit_def)

theorem head_shape_mismatch_skips_head_witness:
  "load_model demo_env (demo_trainer_modelled demo_cfg) ''out'' []
     = (Inr ((demo_trainer_modelled demo_cfg)
               \<lparr>tuner := Some (Some \<lparr>training = True, params = [(''weight'', ([4, 4], []))]\<rparr>)\<rparr>),
        [Print ''Loading weights to from out/checkpoint.pth.tar''])
   \<and> head (demo_trainer_modelled demo_cfg)
       = Some (Some \<lparr>training = True, params = [(''weight'', ([2, 4], []))]\<rparr>)"
proof -
  have p: "path_join ''out'' ''checkpoint.pth.tar'' = ''out/checkpoint.pth.tar''"
    by (simp add: path_join_def)
  have h: "env_checkpoint demo_env (path_join ''out'' ''checkpoint.pth.tar'')
             = Some [(''tuner'', [(''weight'', ([4, 4], []))]),
                     (''head'', [(''weight'', ([37, 4], []))])]"
    "map_of [(''tuner'', [(''weight'', ([4, 4], []))]), (''head'', [(''weight'', ([37, 4], []))])]
       ''tuner'' = Some [(''weight'', ([4, 4], []))]"
    "map_of [(''tuner'', [(''weight'', ([4, 4], []))]), (''head'', [(''weight'', ([37, 4], []))])]
       ''head'' = Some [(''weight'', ([37, 4], []))]"
    "tuner (demo_trainer_modelled demo_cfg) = Some (Some (demo_module 4))"
    "env_load_state_dict demo_env [(''weight'', ([4, 4], []))] (demo_module 4)
       = Inr \<lparr>training = True, params = [(''weight'', ([4, 4], []))]\<rparr>"
    "map_of [(''weight'', ([37, 4], []))] ''weight'' = Some ([37, 4], [])"
    "head (demo_trainer_modelled demo_cfg) = Some (Some (demo_module 2))"
    "map_of (params (demo_module 2)) ''weight'' = Some ([2, 4], [])"
    "fst (([37, 4], []) :: tensor) \<noteq> fst (([2, 4], []) :: tensor)"
    by (simp_all add: p demo_env_def demo_trainer_modelled_def demo_module_def)
  from head_shape_mismatch_skips_head[OF h, of "[]"] h(7)
  show ?thesis by (simp add: p demo_module_def)
qed

subsection \<open>C7: a batch size that the micro-batch size does not divide\<close>

text \<open>
  Claim C7 (amended). Let the micro-batch size be nonzero and not divide the batch size.
  For the data set \<^verbatim>\<open>fgvc100\<close>, whenever loading the data succeeds, \<^verbatim>\<open>__init__\<close> fails
  with the assertion error of \<^verbatim>\<open>build_data_loader\<close>; the assertion is the last
  statement of \<^verbatim>\<open>build_data_loader\<close>, and by then \<^verbatim>\<open>load_fgvc100\<close> has moved its
  label-generation network to the GPU.
\<close>

theorem indivisible_batch_rejected_after_loading:
  assumes "micro_batch_size c \<noteq> 0" and "batch_size c mod micro_batch_size c \<noteq> 0"
    and "dataset c = ''fgvc100''" and "\<not> test_train c" and "\<not> test_only c"
    and "test_transform c = Some tt"
    and "0 < batch_size c" and "env_train_labels env \<noteq> []"
    and "one_hot_like (env_generate env (env_train_labels env)) (env_train_labels env) = Inr temp"
  shows "\<exists>evs. Trainer_init env c tr = (Inl AssertionError, tr @ evs)
           \<and> ToCuda ''wide_resnet50_2'' \<in> set evs"
proof -
  have "\<exists>evs. build_data_loader env ((new_trainer c)\<lparr>device := Some d\<rparr>) tr0
            = (Inl AssertionError, tr0 @ evs) \<and> ToCuda ''wide_resnet50_2'' \<in> set evs" for d tr0
    using build_data_loader_indivisible[of "(new_trainer c)\<lparr>device := Some d\<rparr>" tt env temp tr0]
      assms by (simp add: new_trainer_def)
  note b = this
  show ?thesis
  proof (cases "env_cuda_available env")
    case False
    from b[of "''cpu''" tr] obtain evs where
      "build_data_loader env ((new_trainer c)\<lparr>device := Some ''cpu''\<rparr>) tr
         = (Inl AssertionError, tr @ evs)" "ToCuda ''wide_resnet50_2'' \<in> set evs" by blast
    with False show ?thesis
      by (auto simp: Trainer_init_def io_bind_def io_return_def)
  next
    case True
    show ?thesis
    proof (cases "gpu c")
      case None
      from b[of "''cuda''" tr] obtain evs where
        "build_data_loader env ((new_trainer c)\<lparr>device := Some ''cuda''\<rparr>) tr
           = (Inl AssertionError, tr @ evs)" "ToCuda ''wide_resnet50_2'' \<in> set evs" by blast
      with True None show ?thesis
        by (auto simp: Trainer_init_def io_bind_def io_return_def)
    next
      case (Some g)
      from b[of "''cuda:'' @ string_of_nat g" "tr @ [SetDevice g]"] obtain evs where
        e: "build_data_loader env ((new_trainer c)\<lparr>device := Some (''cuda:'' @ string_of_nat g)\<rparr>)
             (tr @ [SetDevice g]) = (Inl AssertionError, (tr @ [SetDevice g]) @ evs)"
          "ToCuda ''wide_resnet50_2'' \<in> set evs" by blast
      have "Trainer_init env c tr = (Inl AssertionError, tr @ (SetDevice g # evs))"
        using True Some e(1)
        by (simp add: Trainer_init_def io_bind_def io_return_def emit_def del: string_of_nat.simps)
      with e(2) show ?thesis by (intro exI[of _ "SetDevice g # evs"]) simp
    qed
  qed
qed

theorem indivisible_batch_rejected_after_loading_witness:
  "\<exists>evs. Trainer_init demo_env demo_cfg_indivisible [] = (Inl AssertionError, [] @ evs)
     \<and> ToCuda ''wide_resnet50_2'' \<in> set evs"
proof -
  have h: "micro_batch_size demo_cfg_indivisible \<noteq> 0"
    "batch_size demo_cfg_indivisible mod micro_batch_size demo_cfg_indivisible \<noteq> 0"
    "dataset demo_cfg_indivisible = ''fgvc100''"
    "\<not> test_train demo_cfg_indivisible" "\<not> test_only demo_cfg_indivisible"
    "test_transform demo_cfg_indivisible = Some CenterCrop"
    "0 < batch_size demo_cfg_indivisible" "env_train_labels demo_env \<noteq> []"
    by (simp_all add: demo_cfg_indivisible_def demo_cfg_def demo_env_def test_transform_def)
  have oh: "one_hot_like (env_generate demo_env (env_train_labels demo_env))
              (env_train_labels demo_env) = Inr [[1, 0], [0, 1], [1, 0], [0, 1], [1, 0]]"
    by code_simp
  from indivisible_batch_rejected_after_loading[OF h oh, of "[]"] show ?thesis .
qed

text \<open>
  C7, as the claim states it, fails: with a batch size of 3 and micro-batches of 2 the
  network of \<^verbatim>\<open>load_fgvc100\<close> is on the GPU before the assertion fails.
\<close>

theorem indivisible_batch_allocates_device_counterexample:
  "Trainer_init demo_env demo_cfg_indivisible []
     = (Inl AssertionError,
        [Print ''mean: [0.48145466, 0.4578275, 0.40821073]'',
         Print ''std: [0.26862954, 0.26130258, 0.27577711]'',
         Print ''2'', ToCuda ''wide_resnet50_2'', Print ''data loading done !'',
         Print ''num_classes: 2''])"
  by code_simp

end
